theory Spec2Isabelle
  imports Complex_Main "HOL-Library.Multiset"
begin

section \<open>JavaScript strings and numbers\<close>

text \<open>
  A JavaScript string is modelled as a \<^typ>\<open>string\<close>: a list of code units, here
  restricted to the Latin-1 range that \<^typ>\<open>char\<close> covers. A JavaScript number that
  the client uses as a counter (a page, a page size, a result count, a position) is an
  \<^typ>\<open>int\<close>; the values stay far below \<open>2 ^ 53\<close>, where the arithmetic of the
  source is exact. \<open>null\<close> and \<open>undefined\<close> are \<open>None\<close>.
\<close>

definition is_js_space :: "char \<Rightarrow> bool" where
  \<comment> \<open>WhiteSpace and LineTerminator of ECMAScript within Latin-1:
      TAB, LF, VT, FF, CR, SPACE, NBSP.\<close>
  "is_js_space c = (of_char c \<in> {9, 10, 11, 12, 13, 32, 160 :: nat})"

definition trim :: "string \<Rightarrow> string" where
  \<comment> \<open>\<open>String.prototype.trim\<close>\<close>
  "trim s = rev (dropWhile is_js_space (rev (dropWhile is_js_space s)))"

fun split_on :: "char \<Rightarrow> string \<Rightarrow> string list" where
  \<comment> \<open>\<open>s.split(c)\<close> for a one-character separator: the empty string gives \<open>['']\<close>.\<close>
  "split_on c [] = [[]]"
| "split_on c (x # xs) =
     (if x = c then [] # split_on c xs
      else (case split_on c xs of
              [] \<Rightarrow> [[x]]
            | y # ys \<Rightarrow> (x # y) # ys))"

fun join_with :: "string \<Rightarrow> string list \<Rightarrow> string" where
  \<comment> \<open>\<open>xs.join(sep)\<close>\<close>
  "join_with sep [] = []"
| "join_with sep [x] = x"
| "join_with sep (x # y # ys) = x @ sep @ join_with sep (y # ys)"

definition truthy :: "string option \<Rightarrow> bool" where
  \<comment> \<open>truthiness of a \<open>string | null | undefined\<close>: neither absent nor empty\<close>
  "truthy v = (case v of None \<Rightarrow> False | Some s \<Rightarrow> s \<noteq> [])"

section \<open>Publication list: the subject filter in the query string\<close>

definition parseSubjectParam :: "string option \<Rightarrow> string list" where
  \<comment> \<open>\<open>PublicationListComponent.parseSubjectParam\<close>\<close>
  "parseSubjectParam v =
     (if \<not> truthy v then []
      else filter (\<lambda>entry. length entry > 0) (map trim (split_on CHR '','' (the v))))"

definition subjectQueryParam :: "string list \<Rightarrow> string option" where
  \<comment> \<open>\<open>updateQueryParams\<close>: \<open>queryParams['subject']\<close> is written only for a
      non-empty list of subject filters, as the terms joined with a comma and a space.\<close>
  "subjectQueryParam subjectValues =
     (let subjectString = (if length subjectValues \<noteq> 0 then join_with '', '' subjectValues else [])
      in if length subjectValues \<noteq> 0 then Some subjectString else None)"

section \<open>Pagination of a listing\<close>

definition MAX_PAGE_LINKS :: int where
  "MAX_PAGE_LINKS = 7"

definition ceil_div :: "int \<Rightarrow> int \<Rightarrow> int" where
  \<comment> \<open>\<open>Math.ceil(total / size)\<close> on integers with \<open>size > 0\<close>\<close>
  "ceil_div a b = - ((- a) div b)"

definition totalPages :: "int \<Rightarrow> int \<Rightarrow> int" where
  \<comment> \<open>the computed signal \<open>totalPages\<close> of \<open>PublicationListComponent\<close> and of
      \<open>HarvestLogListComponent\<close> (the same text in both), from \<open>count()\<close> and
      \<open>pageSize()\<close>\<close>
  "totalPages cnt pageSize =
     (let tot = cnt;
          size = max 1 pageSize
      in if tot = 0 then 1 else ceil_div tot size)"

definition array_from :: "int \<Rightarrow> (int \<Rightarrow> 'a) \<Rightarrow> 'a list" where
  \<comment> \<open>\<open>Array.from({ length: n }, (_, index) => f(index))\<close>; a length that is not
      positive gives the empty array.\<close>
  "array_from n f = map (\<lambda>index. f (int index)) [0 ..< nat n]"

definition pageNumbers :: "int \<Rightarrow> int \<Rightarrow> int list" where
  \<comment> \<open>the computed signal \<open>pageNumbers\<close> (the same text in both components), from
      \<open>totalPages()\<close> and \<open>page()\<close>; \<open>start0\<close>, \<open>start1\<close>, \<open>start2\<close> are the
      successive values of the variable \<open>start\<close>, likewise for \<open>end\<close>.\<close>
  "pageNumbers tot current =
     (let maxLinks = MAX_PAGE_LINKS in
      if tot \<le> maxLinks then array_from tot (\<lambda>index. index + 1)
      else
        let half = maxLinks div 2;
            start0 = current - half;
            end0 = current + half;
            start1 = (if start0 < 1 then 1 else start0);
            end1 = (if start0 < 1 then start1 + maxLinks - 1 else end0);
            end2 = (if end1 > tot then tot else end1);
            start2 = (if end1 > tot then end2 - maxLinks + 1 else start1)
        in array_from (end2 - start2 + 1) (\<lambda>index. start2 + index))"

section \<open>Numbers in query strings\<close>

definition digit_char :: "nat \<Rightarrow> char" where
  "digit_char d = char_of (48 + d)"

fun nat_to_string :: "nat \<Rightarrow> string" where
  "nat_to_string n =
     (if n < 10 then [digit_char n] else nat_to_string (n div 10) @ [digit_char (n mod 10)])"

declare nat_to_string.simps [simp del]

definition int_to_string :: "int \<Rightarrow> string" where
  \<comment> \<open>\<open>n.toString()\<close> and \<open>String(n)\<close> of an integral number (below \<open>10 ^ 21\<close>, where
      JavaScript prints all the digits)\<close>
  "int_to_string i = (if i < 0 then CHR ''-'' # nat_to_string (nat (- i)) else nat_to_string (nat i))"

definition is_digit :: "char \<Rightarrow> bool" where
  "is_digit c = (48 \<le> (of_char c :: nat) \<and> (of_char c :: nat) \<le> 57)"

definition digits_value :: "string \<Rightarrow> int" where
  "digits_value ds = foldl (\<lambda>acc c. acc * 10 + (int (of_char c) - 48)) 0 ds"

definition parseInt10 :: "string \<Rightarrow> int option" where
  \<comment> \<open>\<open>Number.parseInt(s, 10)\<close>: leading white space is skipped, a sign is read, then
      the longest run of decimal digits; \<open>NaN\<close> (here \<open>None\<close>) when there is no digit.\<close>
  "parseInt10 s =
     (let t = dropWhile is_js_space s;
          (sign, rest) = (case t of
                            [] \<Rightarrow> (1, [])
                          | c # cs \<Rightarrow> if c = CHR ''-'' then (- 1, cs)
                                      else if c = CHR ''+'' then (1, cs) else (1, t));
          ds = takeWhile is_digit rest
      in if ds = [] then None else Some (sign * digits_value ds))"

section \<open>HTTP requests\<close>

text \<open>
  Angular's \<open>HttpParams\<close> is an immutable map from a parameter name to the list of its
  values, iterated in the order in which the names were first inserted: an association
  list. \<open>set\<close> replaces the values of a name, \<open>append\<close> adds one more value.
\<close>

type_synonym HttpParams = "(string \<times> string list) list"

definition hp_has :: "string \<Rightarrow> HttpParams \<Rightarrow> bool" where
  "hp_has k ps = (map_of ps k \<noteq> None)"

definition hp_getAll :: "string \<Rightarrow> HttpParams \<Rightarrow> string list" where
  \<comment> \<open>the values of a name; the empty list stands for \<open>null\<close>\<close>
  "hp_getAll k ps = (case map_of ps k of None \<Rightarrow> [] | Some vs \<Rightarrow> vs)"

definition hp_set :: "string \<Rightarrow> string \<Rightarrow> HttpParams \<Rightarrow> HttpParams" where
  "hp_set k v ps =
     (if hp_has k ps then map (\<lambda>(k', vs). if k' = k then (k', [v]) else (k', vs)) ps
      else ps @ [(k, [v])])"

definition hp_append :: "string \<Rightarrow> string \<Rightarrow> HttpParams \<Rightarrow> HttpParams" where
  "hp_append k v ps =
     (if hp_has k ps then map (\<lambda>(k', vs). if k' = k then (k', vs @ [v]) else (k', vs)) ps
      else ps @ [(k, [v])])"

datatype http_request =
    HttpGet (req_url: string) (req_params: HttpParams)
  | HttpPost (req_url: string) (req_body: "(string \<times> string) list")

record http_error =
  \<comment> \<open>what the error handlers read of an \<open>HttpErrorResponse\<close>: \<open>err?.status\<close> and
      \<open>err?.error?.detail\<close> (\<open>None\<close> when it is absent or not a string)\<close>
  err_status :: "int option"
  err_detail :: "string option"

section \<open>Harvest logs\<close>

datatype HarvestStatus = Running | Success | Failed

definition status_text :: "HarvestStatus \<Rightarrow> string" where
  \<comment> \<open>\<open>type HarvestStatus = 'running' | 'success' | 'failed'\<close>: the string each value is
      at run time\<close>
  "status_text s = (case s of Running \<Rightarrow> ''running'' | Success \<Rightarrow> ''success'' | Failed \<Rightarrow> ''failed'')"

record HarvestLogJournalSummary =
  js_id :: string
  js_slug :: string
  js_name :: string

record HarvestLog =
  hl_id :: int
  hl_journal :: "HarvestLogJournalSummary option"
  hl_started_at :: string
  hl_finished_at :: "string option"
  hl_endpoint :: string
  hl_status :: HarvestStatus
  hl_record_count :: int
  hl_error_message :: string

record HarvestLogQuery =
  \<comment> \<open>every field is optional; \<open>status\<close> is declared a \<open>HarvestStatus\<close> and is a string
      at run time\<close>
  q_page :: "int option"
  q_pageSize :: "int option"
  q_journal :: "string option"
  q_journalId :: "string option"
  q_status :: "string option"

definition harvest_list :: "string \<Rightarrow> HarvestLogQuery \<Rightarrow> http_request" where
  \<comment> \<open>\<open>HarvestLogApiService.list\<close>: the request it sends\<close>
  "harvest_list baseUrl query =
     (let params = [];
          page = (case q_page query of None \<Rightarrow> 1 | Some p \<Rightarrow> p);
          params = hp_set ''page'' (int_to_string (max 1 page)) params;
          params = (case q_pageSize query of
                      None \<Rightarrow> params
                    | Some ps \<Rightarrow> if ps \<noteq> 0 \<and> ps > 0
                                then hp_set ''page_size'' (int_to_string (max 1 ps)) params
                                else params);
          params = (if truthy (q_journal query)
                    then hp_set ''journal'' (the (q_journal query)) params else params);
          params = (if truthy (q_journalId query)
                    then hp_set ''journal_id'' (the (q_journalId query)) params else params);
          params = (if truthy (q_status query)
                    then hp_set ''status'' (the (q_status query)) params else params)
      in HttpGet (baseUrl @ ''/harvest-logs/'') params)"

record HarvestLogListState =
  \<comment> \<open>the signals of \<open>HarvestLogListComponent\<close> and its list of page-size options\<close>
  hs_loading :: bool
  hs_error :: "string option"
  hs_logs :: "HarvestLog list"
  hs_count :: int
  hs_page :: int
  hs_pageSize :: int
  hs_journalSlug :: "string option"
  hs_journalName :: "string option"
  hs_statusFilter :: "string option"
  hs_pageSizeOptions :: "int list"

definition HARVEST_DEFAULT_PAGE_SIZE :: int where
  "HARVEST_DEFAULT_PAGE_SIZE = 25"

definition normalizeStatus :: "string option \<Rightarrow> string option" where
  \<comment> \<open>\<open>ngOnInit\<close>: \<open>normalizedStatus\<close> from \<open>statusParam\<close>\<close>
  "normalizeStatus statusParam =
     (if truthy statusParam \<and> the statusParam \<in> set [''running'', ''success'', ''failed'']
      then statusParam else None)"

definition harvest_onQueryParams ::
  "(string option \<Rightarrow> real option) \<Rightarrow> (string \<Rightarrow> string option) \<Rightarrow> HarvestLogListState \<Rightarrow> HarvestLogListState" where
  \<comment> \<open>\<open>ngOnInit\<close>: the subscriber of \<open>queryParamMap\<close>, up to the call of \<open>fetchLogs\<close>.
      \<open>toNumber\<close> is JavaScript's \<open>Number(...)\<close>, with \<open>None\<close> for \<open>NaN\<close>; \<open>params\<close> is
      \<open>params.get\<close>.\<close>
  "harvest_onQueryParams toNumber params st =
     (let pageParam = toNumber (params ''page'');
          resolvedPage = (case pageParam of
                            None \<Rightarrow> 1
                          | Some x \<Rightarrow> if x > 0 then \<lfloor>x\<rfloor> else 1);
          pageSizeParam = toNumber (params ''page_size'');
          resolvedPageSize = (case pageSizeParam of
                                None \<Rightarrow> HARVEST_DEFAULT_PAGE_SIZE
                              | Some x \<Rightarrow> if x > 0 then \<lfloor>x\<rfloor> else HARVEST_DEFAULT_PAGE_SIZE);
          journalParam = params ''journal'';
          journalNameParam = params ''journal_name'';
          statusParam = params ''status'';
          normalizedStatus = normalizeStatus statusParam;
          normalizedSize = max 1 resolvedPageSize;
          st = st\<lparr>hs_page := resolvedPage, hs_pageSize := normalizedSize\<rparr>;
          st = (if normalizedSize \<notin> set (hs_pageSizeOptions st)
                then st\<lparr>hs_pageSizeOptions := sort (hs_pageSizeOptions st @ [normalizedSize])\<rparr>
                else st);
          st = st\<lparr>hs_journalSlug := (if truthy journalParam then Some (trim (the journalParam)) else None),
                  hs_statusFilter := normalizedStatus\<rparr>;
          st = (if truthy journalNameParam \<and> trim (the journalNameParam) \<noteq> []
                then st\<lparr>hs_journalName := Some (trim (the journalNameParam))\<rparr> else st)
      in st)"

definition fetchLogs_request :: "string \<Rightarrow> HarvestLogListState \<Rightarrow> http_request" where
  \<comment> \<open>\<open>fetchLogs\<close>: the request sent through \<open>harvestApi.list\<close>\<close>
  "fetchLogs_request baseUrl st =
     (let page = hs_page st;
          pageSize = hs_pageSize st;
          journal = hs_journalSlug st;
          status = hs_statusFilter st
      in harvest_list baseUrl
           \<lparr>q_page = Some page,
            q_pageSize = Some pageSize,
            q_journal = (if truthy journal then journal else None),
            q_journalId = None,
            q_status = (if truthy status then status else None)\<rparr>)"

datatype override_value = OvNull | OvNumber int | OvString string

definition applyStatusFilter ::
  "string option \<Rightarrow> HarvestLogListState \<Rightarrow> HarvestLogListState \<times> (string \<times> override_value) list" where
  \<comment> \<open>\<open>applyStatusFilter\<close>: the new state and the overrides handed to
      \<open>updateQueryParams\<close>\<close>
  "applyStatusFilter status st =
     (st\<lparr>hs_statusFilter := status\<rparr>,
      [(''status'', (case status of None \<Rightarrow> OvNull | Some s \<Rightarrow> OvString s)), (''page'', OvNumber 1)])"

definition onStatusChange ::
  "string \<Rightarrow> HarvestLogListState \<Rightarrow> HarvestLogListState \<times> (string \<times> override_value) list" where
  \<comment> \<open>\<open>onStatusChange\<close>; a value that is no status leaves the state as it is and asks
      for no navigation.\<close>
  "onStatusChange v st =
     (if v = [] \<or> v = ''all'' then applyStatusFilter None st
      else if v = ''success'' \<or> v = ''failed'' \<or> v = ''running'' then applyStatusFilter (Some v) st
      else (st, []))"

section \<open>Publications: models\<close>

record PublicationMetadataEntry =
  me_id :: int
  me_schema :: string
  me_element :: string
  me_qualifier :: "string option"
  me_value :: string
  me_language :: "string option"
  me_position :: int

record PublicationJournalRef =
  pj_id :: string
  pj_slug :: string
  pj_name :: string

record Publication =
  pub_id :: string
  pub_title :: string
  pub_slug :: string
  pub_description :: string
  pub_publisher :: string
  pub_publisher_url :: "string option"
  pub_issued :: "string option"
  pub_resource_type :: string
  pub_resource_format :: string
  pub_rights :: string
  pub_journal :: "PublicationJournalRef option"
  pub_oai_identifier :: "string option"
  pub_oai_datestamp :: "string option"
  pub_metadata :: "PublicationMetadataEntry list"
  pub_created_at :: string
  pub_updated_at :: string

record FacetItem =
  fi_value :: string
  fi_label :: string
  fi_count :: int
  fi_active :: bool

record FacetSummary =
  fs_param :: string
  fs_total :: int
  fs_more_url :: "string option"
  fs_items :: "FacetItem list"

record PublicationFacetCollection =
  fc_authors :: FacetSummary
  fc_subjects :: FacetSummary
  fc_journals :: FacetSummary
  fc_issued_years :: FacetSummary

text \<open>
  Modelled from the spec: the interface \<open>PaginatedResponse<T>\<close> of
  \<open>core/models/pagination.models.ts\<close>, which \<open>PublicationListResponse\<close> extends, is not
  among the sources. The specification gives the envelope of a list or search response as
  \<open>{count, page, page_size, results[], facets}\<close>; the four fields before \<open>facets\<close> are
  taken to be those of \<open>PaginatedResponse\<close>.
\<close>

record 'a PaginatedResponse =
  pr_count :: int
  pr_page :: int
  pr_page_size :: int
  pr_results :: "'a list"

record PublicationListResponse = "Publication PaginatedResponse" +
  plr_facets :: PublicationFacetCollection

record FacetListResponse =
  fr_count :: int
  fr_page :: int
  fr_page_size :: int
  fr_total_pages :: int
  fr_next :: "string option"
  fr_previous :: "string option"
  fr_param :: string
  fr_results :: "FacetItem list"

section \<open>Publications: the API service\<close>

datatype year_value = YearNumber int | YearString string

record PublicationListOptions =
  \<comment> \<open>every field is optional\<close>
  opt_page :: "int option"
  opt_search :: "string option"
  opt_pageSize :: "int option"
  opt_journalSlug :: "string option"
  opt_journalId :: "int option"
  opt_ordering :: "string option"
  opt_issuedFrom :: "string option"
  opt_issuedTo :: "string option"
  opt_subject :: "string option"
  opt_authors :: "string list option"
  opt_issuedYears :: "year_value list option"

definition append_authors :: "string list option \<Rightarrow> HttpParams \<Rightarrow> HttpParams" where
  \<comment> \<open>\<open>if (Array.isArray(authors)) { authors.map(trim).filter(Boolean).forEach(append) }\<close>\<close>
  "append_authors authors params =
     (case authors of
        None \<Rightarrow> params
      | Some as \<Rightarrow> foldl (\<lambda>ps author. hp_append ''author'' author ps) params
                    (filter (\<lambda>author. author \<noteq> []) (map trim as)))"

definition year_number :: "year_value \<Rightarrow> int option" where
  \<comment> \<open>\<open>typeof year === 'number' ? year : Number.parseInt(String(year), 10)\<close>, with
      \<open>None\<close> for a value that is not finite\<close>
  "year_number y = (case y of YearNumber n \<Rightarrow> Some n | YearString s \<Rightarrow> parseInt10 s)"

definition append_issued_years :: "year_value list option \<Rightarrow> HttpParams \<Rightarrow> HttpParams" where
  \<comment> \<open>\<open>if (Array.isArray(issuedYears)) { issuedYears.map(...).filter(isFinite).forEach(append) }\<close>\<close>
  "append_issued_years issuedYears params =
     (case issuedYears of
        None \<Rightarrow> params
      | Some ys \<Rightarrow> foldl (\<lambda>ps year. hp_append ''issued_year'' (int_to_string year) ps) params
                    (List.map_filter year_number ys))"

definition set_if_truthy :: "string \<Rightarrow> string option \<Rightarrow> HttpParams \<Rightarrow> HttpParams" where
  \<comment> \<open>\<open>if (v) { params = params.set(name, v); }\<close>\<close>
  "set_if_truthy name v params = (if truthy v then hp_set name (the v) params else params)"

definition set_page_size :: "int option \<Rightarrow> HttpParams \<Rightarrow> HttpParams" where
  \<comment> \<open>\<open>if (pageSize && pageSize > 0) { params = params.set('page_size', pageSize.toString()); }\<close>\<close>
  "set_page_size pageSize params =
     (case pageSize of
        None \<Rightarrow> params
      | Some n \<Rightarrow> if n \<noteq> 0 \<and> n > 0 then hp_set ''page_size'' (int_to_string n) params else params)"

definition publication_list :: "string \<Rightarrow> PublicationListOptions \<Rightarrow> http_request" where
  \<comment> \<open>\<open>PublicationApiService.list\<close>: the request it sends\<close>
  "publication_list baseUrl options =
     (let page = (case opt_page options of None \<Rightarrow> 1 | Some p \<Rightarrow> p);
          params = hp_set ''page'' (int_to_string page) [];
          params = set_if_truthy ''search'' (opt_search options) params;
          params = set_page_size (opt_pageSize options) params;
          params = (if truthy (opt_journalSlug options)
                    then hp_set ''journal'' (the (opt_journalSlug options)) params
                    else (case opt_journalId options of
                            None \<Rightarrow> params
                          | Some jid \<Rightarrow> hp_set ''journal_id'' (int_to_string jid) params));
          params = set_if_truthy ''ordering'' (opt_ordering options) params;
          params = set_if_truthy ''issued_from'' (opt_issuedFrom options) params;
          params = set_if_truthy ''issued_to'' (opt_issuedTo options) params;
          params = set_if_truthy ''subject'' (opt_subject options) params;
          params = append_authors (opt_authors options) params;
          params = append_issued_years (opt_issuedYears options) params
      in HttpGet (baseUrl @ ''/publications/'') params)"

definition publication_search :: "string \<Rightarrow> string \<Rightarrow> PublicationListOptions \<Rightarrow> http_request" where
  \<comment> \<open>\<open>PublicationApiService.search\<close>: the request it sends\<close>
  "publication_search baseUrl query options =
     (let page = (case opt_page options of None \<Rightarrow> 1 | Some p \<Rightarrow> p);
          params = hp_set ''q'' query (hp_set ''page'' (int_to_string page) []);
          params = set_page_size (opt_pageSize options) params;
          params = set_if_truthy ''journal'' (opt_journalSlug options) params;
          params = set_if_truthy ''ordering'' (opt_ordering options) params;
          params = set_if_truthy ''issued_from'' (opt_issuedFrom options) params;
          params = set_if_truthy ''issued_to'' (opt_issuedTo options) params;
          params = set_if_truthy ''subject'' (opt_subject options) params;
          params = append_authors (opt_authors options) params;
          params = append_issued_years (opt_issuedYears options) params
      in HttpGet (baseUrl @ ''/publications/search/'') params)"

definition buildFacetParams :: "PublicationListOptions \<Rightarrow> HttpParams" where
  \<comment> \<open>\<open>PublicationApiService.buildFacetParams\<close>; it does not read \<open>options.search\<close>.\<close>
  "buildFacetParams options =
     (let page = (case opt_page options of None \<Rightarrow> 1 | Some p \<Rightarrow> p);
          params = hp_set ''page'' (int_to_string page) [];
          params = set_page_size (opt_pageSize options) params;
          params = (if truthy (opt_journalSlug options)
                    then hp_set ''journal'' (the (opt_journalSlug options)) params
                    else (case opt_journalId options of
                            None \<Rightarrow> params
                          | Some jid \<Rightarrow> hp_set ''journal_id'' (int_to_string jid) params));
          params = set_if_truthy ''ordering'' (opt_ordering options) params;
          params = set_if_truthy ''issued_from'' (opt_issuedFrom options) params;
          params = set_if_truthy ''issued_to'' (opt_issuedTo options) params;
          params = set_if_truthy ''subject'' (opt_subject options) params;
          params = append_authors (opt_authors options) params;
          params = append_issued_years (opt_issuedYears options) params
      in params)"

definition hex_digit :: "nat \<Rightarrow> char" where
  "hex_digit d = (if d < 10 then char_of (48 + d) else char_of (55 + d))"

definition percent_byte :: "nat \<Rightarrow> string" where
  "percent_byte b = [CHR ''%'', hex_digit (b div 16), hex_digit (b mod 16)]"

definition uri_unreserved :: "char \<Rightarrow> bool" where
  \<comment> \<open>the characters \<open>encodeURIComponent\<close> leaves as they are: letters, digits and
      \<open>- _ . ! ~ * ' ( )\<close>\<close>
  "uri_unreserved c =
     (let n = (of_char c :: nat)
      in (65 \<le> n \<and> n \<le> 90) \<or> (97 \<le> n \<and> n \<le> 122) \<or> (48 \<le> n \<and> n \<le> 57)
         \<or> n \<in> {45, 95, 46, 33, 126, 42, 39, 40, 41})"

definition encodeURIComponent :: "string \<Rightarrow> string" where
  \<comment> \<open>every other code unit is written as the bytes of its UTF-8 encoding (one byte
      below 128, two bytes from 128 to 255), each as \<open>%XX\<close>\<close>
  "encodeURIComponent s =
     concat (map (\<lambda>c. let n = (of_char c :: nat)
                      in if uri_unreserved c then [c]
                         else if n < 128 then percent_byte n
                         else percent_byte (192 + n div 64) @ percent_byte (128 + n mod 64)) s)"

definition listFacet :: "string \<Rightarrow> string \<Rightarrow> PublicationListOptions \<Rightarrow> http_request" where
  \<comment> \<open>\<open>PublicationApiService.listFacet\<close>\<close>
  "listFacet baseUrl facetName options =
     (let params = buildFacetParams options
      in HttpGet (baseUrl @ ''/publications/facets/'' @ encodeURIComponent facetName @ ''/'') params)"

definition searchFacet :: "string \<Rightarrow> string \<Rightarrow> string \<Rightarrow> PublicationListOptions \<Rightarrow> http_request" where
  \<comment> \<open>\<open>PublicationApiService.searchFacet\<close>\<close>
  "searchFacet baseUrl query facetName options =
     (let params = buildFacetParams (options\<lparr>opt_search := None\<rparr>);
          nextParams = hp_set ''q'' query params
      in HttpGet (baseUrl @ ''/publications/search/facets/'' @ encodeURIComponent facetName @ ''/'')
           nextParams)"

section \<open>Publications: the list page\<close>

record PublicationListState =
  \<comment> \<open>the signals of \<open>PublicationListComponent\<close> that \<open>fetchPublications\<close> and
      \<open>buildFacetViewLink\<close> read or write, and the flag \<open>hasLoadedInitial\<close>\<close>
  pl_loading :: bool
  pl_error :: "string option"
  pl_publications :: "Publication list"
  pl_facets :: "PublicationFacetCollection option"
  pl_count :: int
  pl_page :: int
  pl_pageSize :: int
  pl_searchQuery :: string
  pl_journalSlug :: "string option"
  pl_journalName :: "string option"
  pl_ordering :: "string option"
  pl_issuedFrom :: "string option"
  pl_issuedTo :: "string option"
  pl_subjectFilters :: "string list"
  pl_authorFilters :: "string list"
  pl_issuedYearFilters :: "string list"
  pl_hasLoadedInitial :: bool

definition isSearch :: "PublicationListState \<Rightarrow> bool" where
  \<comment> \<open>\<open>fetchPublications\<close>: \<open>isSearch = trimmedSearch.length > 0\<close>\<close>
  "isSearch st = (let trimmedSearch = trim (pl_searchQuery st) in length trimmedSearch > 0)"

definition hasAdditionalFilters :: "PublicationListState \<Rightarrow> bool" where
  \<comment> \<open>\<open>fetchPublications\<close>: \<open>hasAdditionalFilters\<close>\<close>
  "hasAdditionalFilters st =
     (truthy (pl_journalSlug st) \<or> truthy (pl_issuedFrom st) \<or> truthy (pl_issuedTo st)
      \<or> truthy (pl_ordering st) \<or> length (pl_subjectFilters st) \<noteq> 0
      \<or> length (pl_authorFilters st) \<noteq> 0 \<or> length (pl_issuedYearFilters st) \<noteq> 0)"

definition usingSearchEndpoint :: "PublicationListState \<Rightarrow> bool" where
  \<comment> \<open>\<open>fetchPublications\<close>: \<open>usingSearchEndpoint = isSearch && !hasAdditionalFilters\<close>\<close>
  "usingSearchEndpoint st = (isSearch st \<and> \<not> hasAdditionalFilters st)"

definition filterOptions :: "PublicationListState \<Rightarrow> PublicationListOptions" where
  \<comment> \<open>\<open>fetchPublications\<close>: \<open>filterOptions\<close>\<close>
  "filterOptions st =
     (let requestedPageSize = max 1 (pl_pageSize st);
          subjectValues = pl_subjectFilters st;
          subjectString = (if length subjectValues \<noteq> 0 then Some (join_with '', '' subjectValues)
                           else None);
          authors = pl_authorFilters st;
          issuedYears = pl_issuedYearFilters st
      in \<lparr>opt_page = Some (pl_page st),
          opt_search = None,
          opt_pageSize = Some requestedPageSize,
          opt_journalSlug = pl_journalSlug st,
          opt_journalId = None,
          opt_ordering = pl_ordering st,
          opt_issuedFrom = pl_issuedFrom st,
          opt_issuedTo = pl_issuedTo st,
          opt_subject = subjectString,
          opt_authors = (if length authors \<noteq> 0 then Some authors else None),
          opt_issuedYears = (if length issuedYears \<noteq> 0 then Some (map YearString issuedYears)
                             else None)\<rparr>)"

definition fetchPublications_request :: "string \<Rightarrow> PublicationListState \<Rightarrow> http_request" where
  \<comment> \<open>\<open>fetchPublications\<close>: the request \<open>request$\<close> stands for\<close>
  "fetchPublications_request baseUrl st =
     (let trimmedSearch = trim (pl_searchQuery st)
      in if usingSearchEndpoint st
         then publication_search baseUrl trimmedSearch (filterOptions st)
         else publication_list baseUrl
                ((filterOptions st)\<lparr>opt_search := (if isSearch st then Some trimmedSearch else None)\<rparr>))"

definition fetchPublications_error ::
  "bool \<Rightarrow> bool \<Rightarrow> http_error \<Rightarrow> PublicationListState \<Rightarrow> PublicationListState" where
  \<comment> \<open>\<open>fetchPublications\<close>: the \<open>error\<close> callback of the subscription, with the values
      of \<open>usingSearchEndpoint\<close> and \<open>isSearch\<close> it closes over\<close>
  "fetchPublications_error usingSearch search err st =
     (let detail = (case err_detail err of None \<Rightarrow> ''Unable to load publications.'' | Some d \<Rightarrow> d);
          detail = (if usingSearch \<and> err_status err = Some 503
                    then ''Search is temporarily unavailable. Please try again later.''
                    else if search \<and> \<not> usingSearch
                    then ''Unable to apply the selected filters with search.''
                    else detail)
      in st\<lparr>pl_loading := False, pl_facets := None, pl_count := 0, pl_publications := [],
             pl_error := Some detail, pl_hasLoadedInitial := True\<rparr>)"

type_synonym publication_backend = "http_request \<Rightarrow> http_error + PublicationListResponse"

definition fetchPublications ::
  "publication_backend \<Rightarrow> string \<Rightarrow> PublicationListState
     \<Rightarrow> (PublicationListState + PublicationListState \<times> PublicationListResponse) \<times> http_request list" where
  \<comment> \<open>\<open>fetchPublications\<close> up to the arrival of the answer: the request is sent once to
      the server \<open>backend\<close>; a failure runs the \<open>error\<close> callback (\<open>Inl\<close> of the state it
      leaves), a response is handed to the \<open>next\<close> callback (\<open>Inr\<close> of the state so far and
      the response). The second component lists the requests sent.\<close>
  "fetchPublications backend baseUrl st =
     (let request = fetchPublications_request baseUrl st;
          st = st\<lparr>pl_loading := True, pl_error := None\<rparr>
      in case backend request of
           Inl err \<Rightarrow> (Inl (fetchPublications_error (usingSearchEndpoint st) (isSearch st) err st),
                        [request])
         | Inr response \<Rightarrow> (Inr (st, response), [request]))"

subsection \<open>A server whose search index is down\<close>

definition empty_summary :: "string \<Rightarrow> FacetSummary" where
  "empty_summary p = \<lparr>fs_param = p, fs_total = 0, fs_more_url = None, fs_items = []\<rparr>"

definition maize_publication :: Publication where
  "maize_publication =
     \<lparr>pub_id = ''1'', pub_title = ''Maize yields'', pub_slug = ''maize-yields'',
      pub_description = [], pub_publisher = [], pub_publisher_url = None, pub_issued = None,
      pub_resource_type = [], pub_resource_format = [], pub_rights = [], pub_journal = None,
      pub_oai_identifier = None, pub_oai_datestamp = None, pub_metadata = [],
      pub_created_at = [], pub_updated_at = []\<rparr>"

definition relational_response :: PublicationListResponse where
  "relational_response =
     \<lparr>pr_count = 1, pr_page = 1, pr_page_size = 10, pr_results = [maize_publication],
      plr_facets = \<lparr>fc_authors = empty_summary ''author'', fc_subjects = empty_summary ''subject'',
                    fc_journals = empty_summary ''journal'',
                    fc_issued_years = empty_summary ''issued_year''\<rparr>\<rparr>"

definition index_down_backend :: publication_backend where
  \<comment> \<open>the search endpoint answers 503, every other request is answered from the
      relational store\<close>
  "index_down_backend request =
     (if req_url request = ''/api/publications/search/''
      then Inl \<lparr>err_status = Some 503, err_detail = Some ''Search backend unavailable.''\<rparr>
      else Inr relational_response)"

definition maize_search_state :: PublicationListState where
  \<comment> \<open>the list page after the query \<open>maize\<close> was typed, with no filter set\<close>
  "maize_search_state =
     \<lparr>pl_loading = False, pl_error = None, pl_publications = [], pl_facets = None,
      pl_count = 0, pl_page = 1, pl_pageSize = 10, pl_searchQuery = ''maize'',
      pl_journalSlug = None, pl_journalName = None,
      pl_ordering = None, pl_issuedFrom = None, pl_issuedTo = None,
      pl_subjectFilters = [], pl_authorFilters = [], pl_issuedYearFilters = [],
      pl_hasLoadedInitial = False\<rparr>"

section \<open>Publications: the facet page\<close>

definition FACET_DEFAULT_PAGE_SIZE :: int where
  "FACET_DEFAULT_PAGE_SIZE = 50"

datatype FacetRouteKey = FacetAuthors | FacetSubjects | FacetJournals | FacetIssuedYears

definition facet_key_text :: "FacetRouteKey \<Rightarrow> string" where
  \<comment> \<open>\<open>type FacetRouteKey = 'authors' | 'subjects' | 'journals' | 'issued_years'\<close>: the
      string each value is at run time\<close>
  "facet_key_text k =
     (case k of FacetAuthors \<Rightarrow> ''authors'' | FacetSubjects \<Rightarrow> ''subjects''
      | FacetJournals \<Rightarrow> ''journals'' | FacetIssuedYears \<Rightarrow> ''issued_years'')"

definition FACET_PARAM_MAP :: "FacetRouteKey \<Rightarrow> string" where
  "FACET_PARAM_MAP k =
     (case k of FacetAuthors \<Rightarrow> ''author'' | FacetSubjects \<Rightarrow> ''subject''
      | FacetJournals \<Rightarrow> ''journal'' | FacetIssuedYears \<Rightarrow> ''issued_year'')"

datatype query_value = QueryString string | QueryList "string list"

definition buildFacetViewLink ::
  "PublicationListState \<Rightarrow> FacetRouteKey \<Rightarrow> string list \<times> (string \<times> query_value) list" where
  \<comment> \<open>\<open>PublicationListComponent.buildFacetViewLink\<close>: the router commands and the query
      parameters of the link to a facet page, in the order the properties are assigned\<close>
  "buildFacetViewLink st facet =
     (let queryParams = [];
          trimmedSearch = trim (pl_searchQuery st);
          journalSlug = pl_journalSlug st;
          journalName = pl_journalName st;
          ordering = pl_ordering st;
          issuedFrom = pl_issuedFrom st;
          issuedTo = pl_issuedTo st;
          subjectValues = pl_subjectFilters st;
          authorValues = pl_authorFilters st;
          issuedYearValues = pl_issuedYearFilters st;
          queryParams = (if trimmedSearch \<noteq> []
                         then queryParams @ [(''search'', QueryString trimmedSearch)]
                         else queryParams);
          queryParams = (if truthy journalSlug
                         then (let queryParams = queryParams @ [(''journal'', QueryString (the journalSlug))]
                               in if truthy journalName
                                  then queryParams @ [(''journal_name'', QueryString (the journalName))]
                                  else queryParams)
                         else queryParams);
          queryParams = (if truthy ordering
                         then queryParams @ [(''ordering'', QueryString (the ordering))]
                         else queryParams);
          queryParams = (if truthy issuedFrom
                         then queryParams @ [(''issued_from'', QueryString (the issuedFrom))]
                         else queryParams);
          queryParams = (if truthy issuedTo
                         then queryParams @ [(''issued_to'', QueryString (the issuedTo))]
                         else queryParams);
          queryParams = (if length subjectValues \<noteq> 0
                         then queryParams @ [(''subject'', QueryString (join_with '', '' subjectValues))]
                         else queryParams);
          queryParams = (if length authorValues \<noteq> 0
                         then queryParams @ [(''author'', QueryList authorValues)]
                         else queryParams);
          queryParams = (if length issuedYearValues \<noteq> 0
                         then queryParams @ [(''issued_year'', QueryList issuedYearValues)]
                         else queryParams);
          usingSearch = (length trimmedSearch > 0);
          queryParams = (if usingSearch
                         then queryParams @ [(''search_mode'', QueryString ''elastic'')]
                         else queryParams)
      in ([''/publications'', ''facets'', facet_key_text facet], queryParams))"

definition readFacetRouteKey :: "string option \<Rightarrow> FacetRouteKey option" where
  \<comment> \<open>the type guard \<open>isFacetRouteKey\<close>: the key a route value is, \<open>None\<close> where the guard
      answers \<open>false\<close>\<close>
  "readFacetRouteKey v =
     (if v = Some ''authors'' then Some FacetAuthors
      else if v = Some ''subjects'' then Some FacetSubjects
      else if v = Some ''journals'' then Some FacetJournals
      else if v = Some ''issued_years'' then Some FacetIssuedYears
      else None)"

datatype search_mode = ModeDefault | ModeElastic

record FacetQueryContext =
  \<comment> \<open>the result of \<open>parseQueryParams\<close>\<close>
  ctx_page :: int
  ctx_pageSize :: int
  ctx_searchMode :: search_mode
  ctx_searchTerm :: string
  ctx_baseQuery :: "(string \<times> query_value) list"
  ctx_filterChips :: "(string \<times> string) list"
  ctx_options :: PublicationListOptions

definition or_undefined :: "string \<Rightarrow> string option" where
  \<comment> \<open>\<open>s || undefined\<close>\<close>
  "or_undefined s = (if s \<noteq> [] then Some s else None)"

definition parseQueryParams ::
  "(string \<Rightarrow> string list) \<Rightarrow> (string \<Rightarrow> string option) \<Rightarrow> FacetQueryContext" where
  \<comment> \<open>\<open>PublicationFacetListComponent.parseQueryParams\<close>. A chip is a pair of its label
      and its value. The source fills \<open>baseQuery\<close> and \<open>chips\<close> by a sequence of guarded
      assignments and pushes; each is written here as the concatenation of the guarded
      pieces, in the order of the source.\<close>
  "parseQueryParams getAll getSingle =
     (let orEmpty = (\<lambda>v. case v of None \<Rightarrow> [] | Some s \<Rightarrow> s);
          pageRaw = parseInt10 (orEmpty (getSingle ''page''));
          page = (case pageRaw of None \<Rightarrow> 1 | Some n \<Rightarrow> if n > 0 then n else 1);
          pageSizeRaw = parseInt10 (orEmpty (getSingle ''page_size''));
          pageSize = (case pageSizeRaw of
                        None \<Rightarrow> FACET_DEFAULT_PAGE_SIZE
                      | Some n \<Rightarrow> if n > 0 then n else FACET_DEFAULT_PAGE_SIZE);
          searchTerm = trim (orEmpty (getSingle ''search''));
          searchMode = (if getSingle ''search_mode'' = Some ''elastic'' then ModeElastic
                        else ModeDefault);
          journalSlug = trim (orEmpty (getSingle ''journal''));
          journalName = trim (orEmpty (getSingle ''journal_name''));
          ordering = trim (orEmpty (getSingle ''ordering''));
          issuedFrom = trim (orEmpty (getSingle ''issued_from''));
          issuedTo = trim (orEmpty (getSingle ''issued_to''));
          subject = trim (orEmpty (getSingle ''subject''));
          authors = filter (\<lambda>v. v \<noteq> []) (map trim (getAll ''author''));
          issuedYears = filter (\<lambda>v. v \<noteq> []) (map trim (getAll ''issued_year''));
          baseQuery =
            (if searchTerm \<noteq> [] then [(''search'', QueryString searchTerm)] else [])
            @ (if journalSlug \<noteq> []
               then (''journal'', QueryString journalSlug)
                    # (if journalName \<noteq> [] then [(''journal_name'', QueryString journalName)]
                       else [])
               else [])
            @ (if ordering \<noteq> [] then [(''ordering'', QueryString ordering)] else [])
            @ (if issuedFrom \<noteq> [] then [(''issued_from'', QueryString issuedFrom)] else [])
            @ (if issuedTo \<noteq> [] then [(''issued_to'', QueryString issuedTo)] else [])
            @ (if subject \<noteq> [] then [(''subject'', QueryString subject)] else [])
            @ (if length authors \<noteq> 0 then [(''author'', QueryList authors)] else [])
            @ (if length issuedYears \<noteq> 0 then [(''issued_year'', QueryList issuedYears)]
               else []);
          chips =
            (if searchTerm \<noteq> [] then [(''Search'', searchTerm)] else [])
            @ (if journalSlug \<noteq> []
               then [(''Journal'', if journalName \<noteq> [] then journalName else journalSlug)]
               else [])
            @ (if issuedFrom \<noteq> [] then [(''Issued from'', issuedFrom)] else [])
            @ (if issuedTo \<noteq> [] then [(''Issued to'', issuedTo)] else [])
            @ (if subject \<noteq> []
               then map (\<lambda>v. (''Subject'', v))
                      (filter (\<lambda>v. v \<noteq> []) (map trim (split_on CHR '','' subject)))
               else [])
            @ (if length authors \<noteq> 0 then map (\<lambda>v. (''Author'', v)) authors else [])
            @ (if length issuedYears \<noteq> 0 then map (\<lambda>v. (''Issued year'', v)) issuedYears
               else []);
          options = \<lparr>opt_page = Some page,
                     opt_search = None,
                     opt_pageSize = Some pageSize,
                     opt_journalSlug = or_undefined journalSlug,
                     opt_journalId = None,
                     opt_ordering = or_undefined ordering,
                     opt_issuedFrom = or_undefined issuedFrom,
                     opt_issuedTo = or_undefined issuedTo,
                     opt_subject = or_undefined subject,
                     opt_authors = (if length authors \<noteq> 0 then Some authors else None),
                     opt_issuedYears = (if length issuedYears \<noteq> 0
                                        then Some (map YearString issuedYears) else None)\<rparr>;
          options = (if searchMode \<noteq> ModeElastic \<and> searchTerm \<noteq> []
                     then options\<lparr>opt_search := Some searchTerm\<rparr> else options)
      in \<lparr>ctx_page = page, ctx_pageSize = pageSize, ctx_searchMode = searchMode,
          ctx_searchTerm = searchTerm, ctx_baseQuery = baseQuery, ctx_filterChips = chips,
          ctx_options = options\<rparr>)"

record FacetListState =
  \<comment> \<open>the signals of \<open>PublicationFacetListComponent\<close>\<close>
  fl_loading :: bool
  fl_error :: "string option"
  fl_items :: "FacetItem list"
  fl_total :: int
  fl_page :: int
  fl_totalPages :: int
  fl_pageSize :: int
  fl_facetKey :: FacetRouteKey
  fl_facetParam :: string
  fl_searchMode :: search_mode
  fl_searchTerm :: string
  fl_baseQueryParams :: "(string \<times> query_value) list"
  fl_filterChips :: "(string \<times> string) list"

definition fetchFacet_request ::
  "string \<Rightarrow> FacetListState \<Rightarrow> PublicationListOptions \<Rightarrow> http_request" where
  \<comment> \<open>\<open>fetchFacet\<close>: the request \<open>request$\<close> stands for\<close>
  "fetchFacet_request baseUrl st options =
     (let facetKey = fl_facetKey st;
          searchMode = fl_searchMode st;
          searchTerm = fl_searchTerm st
      in if searchMode = ModeElastic \<and> searchTerm \<noteq> []
         then searchFacet baseUrl searchTerm (facet_key_text facetKey) options
         else listFacet baseUrl (facet_key_text facetKey) options)"

definition fetchFacet_next :: "FacetListResponse \<Rightarrow> FacetListState \<Rightarrow> FacetListState" where
  \<comment> \<open>\<open>fetchFacet\<close>: the \<open>next\<close> callback, for a response that has the fields of its
      declared type (the \<open>typeof\<close> tests succeed); \<open>Array.prototype.sort\<close> is stable.\<close>
  "fetchFacet_next response st =
     (let results = fr_results response;
          sorted = sort_key (\<lambda>item. - fi_count item) results;
          totalCount = fr_count response;
          resolvedPage = fr_page response;
          resolvedPageSize = fr_page_size response;
          resolvedTotalPages = fr_total_pages response
      in st\<lparr>fl_items := sorted, fl_total := totalCount, fl_page := resolvedPage,
             fl_pageSize := resolvedPageSize, fl_totalPages := resolvedTotalPages,
             fl_facetParam := fr_param response, fl_loading := False\<rparr>)"

datatype facet_effect = NavigateToPublications | SendRequest http_request

definition facet_onRoute ::
  "string \<Rightarrow> string option \<Rightarrow> (string \<Rightarrow> string list) \<Rightarrow> (string \<Rightarrow> string option)
     \<Rightarrow> FacetListState \<Rightarrow> FacetListState \<times> facet_effect" where
  \<comment> \<open>\<open>ngOnInit\<close>: the subscriber of the route, up to the request of \<open>fetchFacet\<close>;
      \<open>facetParam\<close> is \<open>params.get('facet')\<close>.\<close>
  "facet_onRoute baseUrl facetParam getAll getSingle st =
     (case readFacetRouteKey facetParam of
        None \<Rightarrow> (st, NavigateToPublications)
      | Some key \<Rightarrow>
          let st = st\<lparr>fl_facetKey := key, fl_facetParam := FACET_PARAM_MAP key\<rparr>;
              context = parseQueryParams getAll getSingle;
              st = st\<lparr>fl_page := ctx_page context, fl_pageSize := ctx_pageSize context,
                      fl_searchMode := ctx_searchMode context,
                      fl_searchTerm := ctx_searchTerm context,
                      fl_baseQueryParams := ctx_baseQuery context,
                      fl_filterChips := ctx_filterChips context\<rparr>;
              st = st\<lparr>fl_loading := True, fl_error := None\<rparr>
          in (st, SendRequest (fetchFacet_request baseUrl st (ctx_options context))))"

subsection \<open>A visit of the subjects facet page\<close>

definition facet_initial_state :: FacetListState where
  \<comment> \<open>the initial values of the signals of \<open>PublicationFacetListComponent\<close>\<close>
  "facet_initial_state =
     \<lparr>fl_loading = True, fl_error = None, fl_items = [], fl_total = 0, fl_page = 1,
      fl_totalPages = 1, fl_pageSize = FACET_DEFAULT_PAGE_SIZE, fl_facetKey = FacetAuthors,
      fl_facetParam = FACET_PARAM_MAP FacetAuthors, fl_searchMode = ModeDefault,
      fl_searchTerm = [], fl_baseQueryParams = [], fl_filterChips = []\<rparr>"

definition visit_getSingle :: "string \<Rightarrow> string option" where
  \<comment> \<open>the query string \<open>?search=maize&search_mode=elastic&journal=ajfand&author=Otieno\<close>\<close>
  "visit_getSingle name =
     (if name = ''search'' then Some ''maize''
      else if name = ''search_mode'' then Some ''elastic''
      else if name = ''journal'' then Some ''ajfand''
      else if name = ''author'' then Some ''Otieno''
      else None)"

definition visit_getAll :: "string \<Rightarrow> string list" where
  "visit_getAll name = (case visit_getSingle name of None \<Rightarrow> [] | Some v \<Rightarrow> [v])"

section \<open>Journals: the OAI endpoint test\<close>











subsection \<open>A journal whose endpoint does not answer with OAI\<close>




section \<open>Publications: the form\<close>

definition to_lower_char :: "char \<Rightarrow> char" where
  \<comment> \<open>the lower-case counterpart of a Latin-1 capital letter\<close>
  "to_lower_char c =
     (let n = (of_char c :: nat)
      in if (65 \<le> n \<and> n \<le> 90) \<or> (192 \<le> n \<and> n \<le> 222 \<and> n \<noteq> 215) then char_of (n + 32) else c)"

definition toLowerCase :: "string \<Rightarrow> string" where
  \<comment> \<open>\<open>String.prototype.toLowerCase\<close>\<close>
  "toLowerCase s = map to_lower_char s"

record PublicationMetadataPayload =
  mp_schema :: "string option"
  mp_element :: string
  mp_qualifier :: "string option"
  mp_value :: string
  mp_language :: "string option"
  mp_position :: "int option"

record PublicationPayload =
  pp_title :: string
  pp_description :: "string option"
  pp_publisher :: "string option"
  pp_issued :: "string option"
  pp_resource_type :: "string option"
  pp_resource_format :: "string option"
  pp_rights :: "string option"
  pp_metadata :: "PublicationMetadataPayload list option"

record MetadataGroupValue =
  \<comment> \<open>the raw value of a \<open>MetadataFormGroup\<close>\<close>
  mg_schema :: string
  mg_element :: string
  mg_qualifier :: string
  mg_language :: string
  mg_value :: string

record PublicationFormValue =
  \<comment> \<open>the form: its text controls by name, and the form array \<open>metadata\<close> in display
      order\<close>
  pf_controls :: "string \<Rightarrow> string"
  pf_metadata :: "MetadataGroupValue list"

datatype CoreFieldKey =
  CoreTitle | CoreDescription | CorePublisher | CoreResourceType | CoreResourceFormat
  | CoreRights | CoreIssued

record CoreFieldControlConfig =
  schemaControl :: string
  elementControl :: string
  qualifierControl :: "string option"
  languageControl :: "string option"

record CoreFieldDefaults =
  cd_schema :: string
  cd_element :: string
  cd_qualifier :: string

definition defaultSchema :: string where
  "defaultSchema = ''dc''"

definition coreControlMap :: "CoreFieldKey \<Rightarrow> CoreFieldControlConfig" where
  "coreControlMap field =
     (case field of
        CoreTitle \<Rightarrow> \<lparr>schemaControl = ''title_schema'', elementControl = ''title_element'',
                       qualifierControl = Some ''title_qualifier'', languageControl = None\<rparr>
      | CoreDescription \<Rightarrow> \<lparr>schemaControl = ''description_schema'',
                             elementControl = ''description_element'',
                             qualifierControl = Some ''description_qualifier'',
                             languageControl = None\<rparr>
      | CorePublisher \<Rightarrow> \<lparr>schemaControl = ''publisher_schema'',
                           elementControl = ''publisher_element'',
                           qualifierControl = Some ''publisher_qualifier'',
                           languageControl = None\<rparr>
      | CoreResourceType \<Rightarrow> \<lparr>schemaControl = ''resource_type_schema'',
                              elementControl = ''resource_type_element'',
                              qualifierControl = Some ''resource_type_qualifier'',
                              languageControl = None\<rparr>
      | CoreResourceFormat \<Rightarrow> \<lparr>schemaControl = ''resource_format_schema'',
                                elementControl = ''resource_format_element'',
                                qualifierControl = Some ''resource_format_qualifier'',
                                languageControl = None\<rparr>
      | CoreRights \<Rightarrow> \<lparr>schemaControl = ''rights_schema'', elementControl = ''rights_element'',
                        qualifierControl = Some ''rights_qualifier'', languageControl = None\<rparr>
      | CoreIssued \<Rightarrow> \<lparr>schemaControl = ''issued_schema'', elementControl = ''issued_element'',
                        qualifierControl = Some ''issued_qualifier'', languageControl = None\<rparr>)"

definition getCoreDefaults :: "CoreFieldKey \<Rightarrow> CoreFieldDefaults" where
  "getCoreDefaults field =
     (case field of
        CoreTitle \<Rightarrow> \<lparr>cd_schema = defaultSchema, cd_element = ''title'', cd_qualifier = []\<rparr>
      | CoreDescription \<Rightarrow>
          \<lparr>cd_schema = defaultSchema, cd_element = ''description'', cd_qualifier = []\<rparr>
      | CorePublisher \<Rightarrow>
          \<lparr>cd_schema = defaultSchema, cd_element = ''publisher'', cd_qualifier = []\<rparr>
      | CoreResourceType \<Rightarrow> \<lparr>cd_schema = defaultSchema, cd_element = ''type'', cd_qualifier = []\<rparr>
      | CoreResourceFormat \<Rightarrow>
          \<lparr>cd_schema = defaultSchema, cd_element = ''format'', cd_qualifier = []\<rparr>
      | CoreRights \<Rightarrow> \<lparr>cd_schema = defaultSchema, cd_element = ''rights'', cd_qualifier = []\<rparr>
      | CoreIssued \<Rightarrow>
          \<lparr>cd_schema = defaultSchema, cd_element = ''date'', cd_qualifier = ''issued''\<rparr>)"

definition getTrimmedControlValue :: "PublicationFormValue \<Rightarrow> string \<Rightarrow> string" where
  "getTrimmedControlValue form controlName = trim (pf_controls form controlName)"

definition or_else :: "string \<Rightarrow> string \<Rightarrow> string" where
  \<comment> \<open>\<open>a || b\<close> on strings\<close>
  "or_else a b = (if a \<noteq> [] then a else b)"

definition sanitizeGroup :: "MetadataGroupValue \<Rightarrow> PublicationMetadataPayload option" where
  \<comment> \<open>\<open>buildPayload\<close>: the function mapped over the groups of the form array; \<open>None\<close> is
      the \<open>null\<close> that the following \<open>filter\<close> drops.\<close>
  "sanitizeGroup grp =
     (let trimmedValue = trim (mg_value grp);
          trimmedElement = trim (mg_element grp)
      in if trimmedValue = [] \<or> trimmedElement = [] then None
         else
           let trimmedSchema =
                 toLowerCase (or_else (trim (or_else (mg_schema grp) defaultSchema)) defaultSchema);
               trimmedQualifier = trim (mg_qualifier grp);
               trimmedLanguage = trim (mg_language grp)
           in Some \<lparr>mp_schema = Some trimmedSchema,
                    mp_element = toLowerCase trimmedElement,
                    mp_qualifier = (if trimmedQualifier \<noteq> [] then Some (toLowerCase trimmedQualifier)
                                    else None),
                    mp_value = trimmedValue,
                    mp_language = (if trimmedLanguage \<noteq> [] then Some (toLowerCase trimmedLanguage)
                                   else None),
                    mp_position = None\<rparr>)"

definition metadataEntries :: "PublicationFormValue \<Rightarrow> PublicationMetadataPayload list" where
  \<comment> \<open>\<open>buildPayload\<close>: \<open>metadataEntries\<close>\<close>
  "metadataEntries form = List.map_filter sanitizeGroup (pf_metadata form)"

definition addCoreEntryFromControls ::
  "PublicationFormValue \<Rightarrow> CoreFieldKey \<Rightarrow> string option
     \<Rightarrow> PublicationMetadataPayload list \<Rightarrow> PublicationMetadataPayload list" where
  \<comment> \<open>\<open>buildPayload\<close>: \<open>addCoreEntryFromControls\<close>, with the array \<open>coreEntries\<close> it
      pushes to\<close>
  "addCoreEntryFromControls form field v coreEntries =
     (let trimmedValue = trim (case v of None \<Rightarrow> [] | Some s \<Rightarrow> s)
      in if trimmedValue = [] then coreEntries
         else
           let config = coreControlMap field;
               defaults = getCoreDefaults field;
               schemaValue = or_else (getTrimmedControlValue form (schemaControl config))
                               (cd_schema defaults);
               elementValue = or_else (getTrimmedControlValue form (elementControl config))
                                (cd_element defaults)
           in if elementValue = [] then coreEntries
              else
                let qualifierValue = (case qualifierControl config of
                                        None \<Rightarrow> []
                                      | Some name \<Rightarrow> getTrimmedControlValue form name);
                    qualifierValue = (if qualifierValue = [] \<and> cd_qualifier defaults \<noteq> []
                                      then cd_qualifier defaults else qualifierValue);
                    languageValue = (case languageControl config of
                                       None \<Rightarrow> []
                                     | Some name \<Rightarrow> getTrimmedControlValue form name);
                    entry = \<lparr>mp_schema = Some (toLowerCase (or_else schemaValue defaultSchema)),
                             mp_element = toLowerCase elementValue,
                             mp_qualifier = (if qualifierValue \<noteq> []
                                             then Some (toLowerCase qualifierValue) else None),
                             mp_value = trimmedValue,
                             mp_language = (if languageValue \<noteq> []
                                            then Some (toLowerCase languageValue) else None),
                             mp_position = None\<rparr>
                in coreEntries @ [entry])"

definition basePayload :: "PublicationFormValue \<Rightarrow> PublicationPayload" where
  \<comment> \<open>\<open>buildPayload\<close>: \<open>payload\<close> before the metadata is attached\<close>
  "basePayload form =
     (let raw = pf_controls form;
          issuedValue = trim (raw ''issued'')
      in \<lparr>pp_title = trim (raw ''title''),
          pp_description = Some (trim (raw ''description'')),
          pp_publisher = Some (trim (raw ''publisher'')),
          pp_issued = (if issuedValue \<noteq> [] then Some issuedValue else None),
          pp_resource_type = Some (trim (raw ''resource_type'')),
          pp_resource_format = Some (trim (raw ''resource_format'')),
          pp_rights = Some (trim (raw ''rights'')),
          pp_metadata = None\<rparr>)"

definition coreEntries :: "PublicationFormValue \<Rightarrow> PublicationMetadataPayload list" where
  \<comment> \<open>\<open>buildPayload\<close>: \<open>coreEntries\<close> after the seven calls of
      \<open>addCoreEntryFromControls\<close>\<close>
  "coreEntries form =
     (let payload = basePayload form;
          entries = [];
          entries = addCoreEntryFromControls form CoreTitle (Some (pp_title payload)) entries;
          entries = addCoreEntryFromControls form CoreDescription (pp_description payload) entries;
          entries = addCoreEntryFromControls form CorePublisher (pp_publisher payload) entries;
          entries = addCoreEntryFromControls form CoreResourceType (pp_resource_type payload) entries;
          entries = addCoreEntryFromControls form CoreResourceFormat (pp_resource_format payload)
                      entries;
          entries = addCoreEntryFromControls form CoreRights (pp_rights payload) entries;
          entries = addCoreEntryFromControls form CoreIssued (pp_issued payload) entries
      in entries)"

definition combineEntry :: "nat \<times> PublicationMetadataPayload \<Rightarrow> PublicationMetadataPayload" where
  \<comment> \<open>\<open>buildPayload\<close>: the function \<open>(entry, index) => ...\<close> mapped over the combined
      list\<close>
  "combineEntry p =
     (case p of (index, entry) \<Rightarrow>
        \<lparr>mp_schema = Some (toLowerCase (or_else (case mp_schema entry of None \<Rightarrow> [] | Some s \<Rightarrow> s)
                                           defaultSchema)),
         mp_element = toLowerCase (mp_element entry),
         mp_qualifier = (if truthy (mp_qualifier entry)
                         then Some (toLowerCase (the (mp_qualifier entry))) else None),
         mp_value = mp_value entry,
         mp_language = (if truthy (mp_language entry)
                        then Some (toLowerCase (the (mp_language entry))) else None),
         mp_position = Some (int index)\<rparr>)"

definition buildPayload :: "PublicationFormValue \<Rightarrow> PublicationPayload" where
  \<comment> \<open>\<open>PublicationFormComponent.buildPayload\<close>\<close>
  "buildPayload form =
     (let payload = basePayload form;
          combinedEntries = map combineEntry (List.enumerate 0 (coreEntries form @ metadataEntries form))
      in payload\<lparr>pp_metadata := Some combinedEntries\<rparr>)"

definition createMetadataGroup :: "PublicationMetadataEntry \<Rightarrow> MetadataGroupValue" where
  \<comment> \<open>\<open>createMetadataGroup\<close> for a stored entry: the initial values of the controls\<close>
  "createMetadataGroup entry =
     \<lparr>mg_schema = me_schema entry,
      mg_element = me_element entry,
      mg_qualifier = (case me_qualifier entry of None \<Rightarrow> [] | Some q \<Rightarrow> q),
      mg_language = (case me_language entry of None \<Rightarrow> [] | Some l \<Rightarrow> l),
      mg_value = me_value entry\<rparr>"

definition setMetadataEntries ::
  "PublicationMetadataEntry list \<Rightarrow> PublicationFormValue \<Rightarrow> PublicationFormValue" where
  \<comment> \<open>\<open>setMetadataEntries\<close>: the form array is emptied, then one group is pushed for each
      entry, in the order of a stable sort by position\<close>
  "setMetadataEntries entries form =
     (let form = form\<lparr>pf_metadata := []\<rparr>
      in if length entries = 0 then form
         else form\<lparr>pf_metadata := map createMetadataGroup (sort_key me_position entries)\<rparr>)"

definition normalizeValue :: "string option \<Rightarrow> string" where
  \<comment> \<open>\<open>normalizeValue\<close>\<close>
  "normalizeValue v = toLowerCase (trim (case v of None \<Rightarrow> [] | Some s \<Rightarrow> s))"

fun findIndex :: "('a \<Rightarrow> bool) \<Rightarrow> 'a list \<Rightarrow> nat option" where
  \<comment> \<open>\<open>Array.prototype.findIndex\<close>, with \<open>None\<close> for \<open>-1\<close>\<close>
  "findIndex P [] = None"
| "findIndex P (x # xs) =
     (if P x then Some 0 else (case findIndex P xs of None \<Rightarrow> None | Some i \<Rightarrow> Some (Suc i)))"

definition extractCoreEntry ::
  "PublicationMetadataEntry list \<Rightarrow> string option \<Rightarrow> CoreFieldDefaults
     \<Rightarrow> PublicationMetadataEntry option \<times> PublicationMetadataEntry list" where
  \<comment> \<open>\<open>extractCoreEntry\<close>: the entry it returns and the array \<open>entries\<close> as \<open>splice\<close>
      leaves it\<close>
  "extractCoreEntry entries targetValue defaults =
     (let normalizedTarget = normalizeValue targetValue;
          index = (if normalizedTarget \<noteq> []
                   then findIndex (\<lambda>entry. normalizeValue (Some (me_value entry)) = normalizedTarget)
                          entries
                   else None);
          index = (case index of
                     Some i \<Rightarrow> Some i
                   | None \<Rightarrow>
                       findIndex (\<lambda>entry.
                           normalizeValue (Some (me_schema entry))
                             = normalizeValue (Some (cd_schema defaults))
                           \<and> normalizeValue (Some (me_element entry))
                             = normalizeValue (Some (cd_element defaults))
                           \<and> normalizeValue (me_qualifier entry)
                             = normalizeValue (Some (cd_qualifier defaults)))
                         entries)
      in case index of
           Some i \<Rightarrow> (Some (entries ! i), take i entries @ drop (Suc i) entries)
         | None \<Rightarrow> (None, entries))"

definition applyCoreMetadataControls ::
  "CoreFieldKey \<Rightarrow> PublicationMetadataEntry option \<Rightarrow> (string \<Rightarrow> string) \<Rightarrow> (string \<Rightarrow> string)" where
  \<comment> \<open>\<open>applyCoreMetadataControls\<close>, on the text controls of the form\<close>
  "applyCoreMetadataControls field entry controls =
     (let config = coreControlMap field;
          defaults = getCoreDefaults field;
          controls = controls(schemaControl config :=
                       (case entry of None \<Rightarrow> cd_schema defaults | Some e \<Rightarrow> me_schema e));
          controls = controls(elementControl config :=
                       (case entry of None \<Rightarrow> cd_element defaults | Some e \<Rightarrow> me_element e));
          controls = (case qualifierControl config of
                        None \<Rightarrow> controls
                      | Some name \<Rightarrow>
                          controls(name :=
                            (case entry of
                               None \<Rightarrow> cd_qualifier defaults
                             | Some e \<Rightarrow> (case me_qualifier e of
                                            None \<Rightarrow> cd_qualifier defaults
                                          | Some q \<Rightarrow> q))));
          controls = (case languageControl config of
                        None \<Rightarrow> controls
                      | Some name \<Rightarrow>
                          controls(name :=
                            (case entry of
                               None \<Rightarrow> []
                             | Some e \<Rightarrow> (case me_language e of None \<Rightarrow> [] | Some l \<Rightarrow> l))))
      in controls)"

definition patchCoreField ::
  "CoreFieldKey \<Rightarrow> string \<Rightarrow> string option
     \<Rightarrow> PublicationMetadataEntry list \<times> (string \<Rightarrow> string)
     \<Rightarrow> PublicationMetadataEntry list \<times> (string \<Rightarrow> string)" where
  \<comment> \<open>\<open>patchForm\<close>: the four statements written for each core field, on the remaining
      entries and the text controls; \<open>control\<close> is the control of the field's value and
      \<open>stored\<close> the attribute of the publication.\<close>
  "patchCoreField field control stored p =
     (case p of (entries, controls) \<Rightarrow>
        (case extractCoreEntry entries stored (getCoreDefaults field) of
           (entry, entries) \<Rightarrow>
             let v = (case entry of
                        Some e \<Rightarrow> me_value e
                      | None \<Rightarrow> (case stored of None \<Rightarrow> [] | Some s \<Rightarrow> s));
                 v = (if field = CoreIssued \<and> CHR ''T'' \<in> set v
                      then hd (split_on CHR ''T'' v) else v);
                 controls = controls(control := v);
                 controls = applyCoreMetadataControls field entry controls
             in (entries, controls)))"

definition patchForm :: "Publication \<Rightarrow> PublicationFormValue \<Rightarrow> PublicationFormValue" where
  \<comment> \<open>\<open>PublicationFormComponent.patchForm\<close>\<close>
  "patchForm publication form =
     (let p = (pub_metadata publication, pf_controls form);
          p = patchCoreField CoreTitle ''title'' (Some (pub_title publication)) p;
          p = patchCoreField CoreDescription ''description'' (Some (pub_description publication)) p;
          p = patchCoreField CorePublisher ''publisher'' (Some (pub_publisher publication)) p;
          p = patchCoreField CoreResourceType ''resource_type''
                (Some (pub_resource_type publication)) p;
          p = patchCoreField CoreResourceFormat ''resource_format''
                (Some (pub_resource_format publication)) p;
          p = patchCoreField CoreRights ''rights'' (Some (pub_rights publication)) p;
          p = patchCoreField CoreIssued ''issued'' (pub_issued publication) p
      in setMetadataEntries (fst p) (form\<lparr>pf_controls := snd p\<rparr>))"

subsection \<open>The core fields of a loaded publication\<close>

text \<open>
  \<open>patchForm\<close> treats the seven core fields one after the other, in the order of
  \<open>coreFields\<close>. For each of them it looks among the entries still at hand for one that
  matches the field (\<open>matchesCoreField\<close>, the two tests of \<open>extractCoreEntry\<close>), takes it
  out and shows its value in the control of the field (\<open>coreValueControl\<close>); an issue
  date is shown without its time (\<open>shownCoreValue\<close>).
\<close>

definition coreFields :: "CoreFieldKey list" where
  "coreFields =
     [CoreTitle, CoreDescription, CorePublisher, CoreResourceType, CoreResourceFormat,
      CoreRights, CoreIssued]"

definition coreValueControl :: "CoreFieldKey \<Rightarrow> string" where
  \<comment> \<open>the control \<open>patchForm\<close> sets the value of the field in\<close>
  "coreValueControl field =
     (case field of
        CoreTitle \<Rightarrow> ''title'' | CoreDescription \<Rightarrow> ''description''
      | CorePublisher \<Rightarrow> ''publisher'' | CoreResourceType \<Rightarrow> ''resource_type''
      | CoreResourceFormat \<Rightarrow> ''resource_format'' | CoreRights \<Rightarrow> ''rights''
      | CoreIssued \<Rightarrow> ''issued'')"

definition coreStoredValue :: "Publication \<Rightarrow> CoreFieldKey \<Rightarrow> string option" where
  \<comment> \<open>the attribute of the publication that \<open>patchForm\<close> hands to \<open>extractCoreEntry\<close>\<close>
  "coreStoredValue publication field =
     (case field of
        CoreTitle \<Rightarrow> Some (pub_title publication)
      | CoreDescription \<Rightarrow> Some (pub_description publication)
      | CorePublisher \<Rightarrow> Some (pub_publisher publication)
      | CoreResourceType \<Rightarrow> Some (pub_resource_type publication)
      | CoreResourceFormat \<Rightarrow> Some (pub_resource_format publication)
      | CoreRights \<Rightarrow> Some (pub_rights publication)
      | CoreIssued \<Rightarrow> pub_issued publication)"

definition matchesCoreField ::
  "Publication \<Rightarrow> CoreFieldKey \<Rightarrow> PublicationMetadataEntry \<Rightarrow> bool" where
  \<comment> \<open>the entry has the stored value of the field (a value that is not blank), or it
      has the default schema, element and qualifier of the field; all compared trimmed and
      in lower case\<close>
  "matchesCoreField publication field entry =
     ((normalizeValue (coreStoredValue publication field) \<noteq> []
       \<and> normalizeValue (Some (me_value entry))
           = normalizeValue (coreStoredValue publication field))
      \<or> (normalizeValue (Some (me_schema entry))
            = normalizeValue (Some (cd_schema (getCoreDefaults field)))
          \<and> normalizeValue (Some (me_element entry))
            = normalizeValue (Some (cd_element (getCoreDefaults field)))
          \<and> normalizeValue (me_qualifier entry)
            = normalizeValue (Some (cd_qualifier (getCoreDefaults field)))))"

definition shownCoreValue :: "CoreFieldKey \<Rightarrow> string \<Rightarrow> string" where
  \<comment> \<open>\<open>issuedRaw.includes('T') ? issuedRaw.split('T')[0] : issuedRaw\<close> for the issue
      date, the value itself for the other fields\<close>
  "shownCoreValue field v =
     (if field = CoreIssued \<and> CHR ''T'' \<in> set v then takeWhile (\<lambda>c. c \<noteq> CHR ''T'') v else v)"

subsection \<open>A form with two creators\<close>

definition maize_form :: PublicationFormValue where
  \<comment> \<open>a title, an issue date and two additional entries of the same group
      \<open>dc.creator\<close>; the controls of the schema, element and qualifier of the title are
      left empty\<close>
  "maize_form =
     \<lparr>pf_controls = (\<lambda>name. if name = ''title'' then '' Maize Yields ''
                              else if name = ''issued'' then ''2020-01-01''
                              else if name = ''issued_element'' then ''date''
                              else if name = ''issued_qualifier'' then ''issued''
                              else []),
      pf_metadata =
        [\<lparr>mg_schema = ''dc'', mg_element = ''creator'', mg_qualifier = [], mg_language = [],
          mg_value = ''Otieno''\<rparr>,
         \<lparr>mg_schema = [], mg_element = ''Creator'', mg_qualifier = [], mg_language = [],
          mg_value = ''Wanjiru''\<rparr>]\<rparr>"

definition stored_creators :: "PublicationMetadataEntry list" where
  \<comment> \<open>two stored entries, received out of order\<close>
  "stored_creators =
     [\<lparr>me_id = 12, me_schema = ''dc'', me_element = ''creator'', me_qualifier = None,
       me_value = ''Wanjiru'', me_language = None, me_position = 3\<rparr>,
      \<lparr>me_id = 11, me_schema = ''dc'', me_element = ''creator'', me_qualifier = None,
       me_value = ''Otieno'', me_language = None, me_position = 2\<rparr>]"

definition stored_maize_publication :: Publication where
  \<comment> \<open>a stored publication: its title and issue date are entries of their own, between
      the two creators\<close>
  "stored_maize_publication =
     maize_publication
       \<lparr>pub_issued := Some ''2020-01-01T00:00:00Z'',
        pub_metadata :=
          [\<lparr>me_id = 12, me_schema = ''dc'', me_element = ''creator'', me_qualifier = None,
            me_value = ''Wanjiru'', me_language = None, me_position = 3\<rparr>,
           \<lparr>me_id = 10, me_schema = ''dc'', me_element = ''date'', me_qualifier = Some ''issued'',
            me_value = ''2020-01-01T00:00:00Z'', me_language = None, me_position = 1\<rparr>,
           \<lparr>me_id = 9, me_schema = ''dc'', me_element = ''title'', me_qualifier = None,
            me_value = ''Maize yields'', me_language = None, me_position = 0\<rparr>,
           \<lparr>me_id = 11, me_schema = ''dc'', me_element = ''creator'', me_qualifier = None,
            me_value = ''Otieno'', me_language = None, me_position = 2\<rparr>]\<rparr>"

section \<open>Verified properties\<close>

subsection \<open>Subject filter encoding\<close>

lemma split_on_notin: "c \<notin> set a \<Longrightarrow> split_on c a = [a]"
  by (induction a) auto

lemma split_on_app: "c \<notin> set a \<Longrightarrow> split_on c (a @ c # rest) = a # split_on c rest"
  by (induction a) auto

lemma trim_space_cons: "is_js_space c \<Longrightarrow> trim (c # s) = trim s"
  by (simp add: trim_def)

lemma split_join:
  "\<forall>t\<in>set (x # xs). CHR '','' \<notin> set t \<Longrightarrow>
   split_on CHR '','' (join_with '', '' (x # xs)) = x # map (\<lambda>y. CHR '' '' # y) xs"
proof (induction xs arbitrary: x)
  case Nil
  then show ?case by (simp add: split_on_notin)
next
  case (Cons y ys)
  have x: "CHR '','' \<notin> set x" using Cons.prems by simp
  have rest: "split_on CHR '','' (join_with '', '' (y # ys)) = y # map (\<lambda>y. CHR '' '' # y) ys"
    using Cons.IH [of y] Cons.prems by simp
  have "join_with '', '' (x # y # ys) = x @ CHR '','' # (CHR '' '' # join_with '', '' (y # ys))"
    by simp
  then have "split_on CHR '','' (join_with '', '' (x # y # ys))
             = x # split_on CHR '','' (CHR '' '' # join_with '', '' (y # ys))"
    using split_on_app [OF x] by simp
  also have "split_on CHR '','' (CHR '' '' # join_with '', '' (y # ys))
             = (CHR '' '' # y) # map (\<lambda>y. CHR '' '' # y) ys"
    using rest by simp
  finally show ?case by simp
qed

lemma join_nonempty: "x \<noteq> [] \<Longrightarrow> join_with sep (x # xs) \<noteq> []"
  by (cases xs) auto

text \<open>
  Claim C10. Round trip of the subject filter through the query string: for every list
  of subject terms, each of them non-empty, equal to its own trim and free of commas,
  writing the list into the single \<open>subject\<close> query parameter (the terms joined with a
  comma and a space; no parameter at all for the empty list) and parsing that parameter
  again (split at the commas, trim, drop the empty entries) gives back the list, in order.
\<close>

theorem subject_filter_roundtrip:
  assumes "\<forall>t\<in>set xs. t \<noteq> [] \<and> trim t = t \<and> CHR '','' \<notin> set t"
  shows "parseSubjectParam (subjectQueryParam xs) = xs"
proof (cases xs)
  case Nil
  then show ?thesis by (simp add: parseSubjectParam_def subjectQueryParam_def truthy_def)
next
  case (Cons x ys)
  have ne: "join_with '', '' (x # ys) \<noteq> []"
    using assms Cons by (simp add: join_nonempty)
  have sp: "split_on CHR '','' (join_with '', '' (x # ys)) = x # map (\<lambda>y. CHR '' '' # y) ys"
    using assms Cons by (intro split_join) simp
  have tr: "map trim (x # map (\<lambda>y. CHR '' '' # y) ys) = x # ys"
    using assms Cons by (simp add: trim_space_cons is_js_space_def map_idI)
  have fl: "filter (\<lambda>entry. length entry > 0) (x # ys) = x # ys"
    using assms Cons by (simp add: filter_id_conv)
  show ?thesis
    using ne sp tr fl Cons
    by (simp add: parseSubjectParam_def subjectQueryParam_def truthy_def)
qed

theorem subject_filter_roundtrip_witness:
  "list_all (\<lambda>t. t \<noteq> [] \<and> trim t = t \<and> CHR '','' \<notin> set t) [''maize'', ''food security'']
   \<and> subjectQueryParam [''maize'', ''food security''] = Some ''maize, food security''
   \<and> parseSubjectParam (Some ''maize, food security'') = [''maize'', ''food security'']"
proof -
  have h: "\<forall>t\<in>set [''maize'', ''food security'']. t \<noteq> [] \<and> trim t = t \<and> CHR '','' \<notin> set t"
    by (simp add: trim_def is_js_space_def)
  have q: "subjectQueryParam [''maize'', ''food security''] = Some ''maize, food security''"
    by (simp add: subjectQueryParam_def)
  show ?thesis using h q subject_filter_roundtrip [OF h] by simp
qed

subsection \<open>Page links\<close>

lemma array_from_upto: "array_from n (\<lambda>index. s + index) = [s .. s + n - 1]"
proof -
  have "map (\<lambda>index. s + int index) [0 ..< m] = [s .. s + int m - 1]" for m
  proof (induction m)
    case 0
    then show ?case by simp
  next
    case (Suc m)
    have "[s .. s + int (Suc m) - 1] = [s .. s + int m - 1] @ [s + int m]"
      using upto_rec2 [of s "s + int m"] by simp
    then show ?case using Suc by simp
  qed
  from this [of "nat n"] show ?thesis
    by (cases "0 \<le> n") (simp_all add: array_from_def)
qed

lemma pageNumbers_upto:
  "pageNumbers tot current =
     (if tot \<le> 7 then [1 .. tot]
      else if current - 3 < 1 then (if 7 > tot then [tot - 6 .. tot] else [1 .. 7])
      else if current + 3 > tot then [tot - 6 .. tot]
      else [current - 3 .. current + 3])"
proof -
  have a: "array_from n (\<lambda>index. index + 1) = [1 .. n]" for n
    using array_from_upto [of n 1] by (simp add: add.commute)
  show ?thesis
    by (simp add: pageNumbers_def MAX_PAGE_LINKS_def Let_def a array_from_upto)
qed

lemma ceil_div_ceiling: "ceil_div a b = \<lceil>real_of_int a / real_of_int b\<rceil>"
  by (simp add: ceil_div_def ceiling_divide_eq_div)

lemma pageNumbers_window:
  assumes "1 \<le> current" and "current \<le> tot"
  shows "\<exists>lo hi. pageNumbers tot current = [lo .. hi]
           \<and> 1 \<le> lo \<and> lo \<le> current \<and> current \<le> hi \<and> hi \<le> tot \<and> hi - lo + 1 \<le> 7"
proof -
  consider (small) "tot \<le> 7"
    | (left) "7 < tot" "current < 4"
    | (right) "7 < tot" "4 \<le> current" "tot < current + 3"
    | (mid) "7 < tot" "4 \<le> current" "current + 3 \<le> tot"
    by linarith
  then show ?thesis
  proof cases
    case small
    then have "pageNumbers tot current = [1 .. tot]" by (simp add: pageNumbers_upto)
    then show ?thesis using assms small by (intro exI [of _ 1] exI [of _ tot]) simp
  next
    case left
    then have "pageNumbers tot current = [1 .. 7]" by (simp add: pageNumbers_upto)
    then show ?thesis using assms left by (intro exI [of _ 1] exI [of _ 7]) simp
  next
    case right
    then have "pageNumbers tot current = [tot - 6 .. tot]" by (simp add: pageNumbers_upto)
    then show ?thesis using assms right by (intro exI [of _ "tot - 6"] exI [of _ tot]) simp
  next
    case mid
    then have "pageNumbers tot current = [current - 3 .. current + 3]"
      by (simp add: pageNumbers_upto)
    then show ?thesis using assms mid
      by (intro exI [of _ "current - 3"] exI [of _ "current + 3"]) simp
  qed
qed

text \<open>
  Claim C9. For every result count \<open>cnt \<ge> 0\<close> and page size \<open>pageSize \<ge> 1\<close> the
  number of pages is 1 when the count is 0 and the ceiling of \<open>cnt / pageSize\<close>
  otherwise; and for every current page between 1 and that number the page links are a
  run \<open>[lo .. hi]\<close> of consecutive page numbers, at most 7 of them, all between 1 and the
  number of pages, with the current page among them.
\<close>

theorem pagination_window:
  assumes "0 \<le> cnt" and "1 \<le> pageSize"
  shows "totalPages cnt pageSize
           = (if cnt = 0 then 1 else \<lceil>real_of_int cnt / real_of_int pageSize\<rceil>)
         \<and> (1 \<le> current \<and> current \<le> totalPages cnt pageSize \<longrightarrow>
              (\<exists>lo hi. pageNumbers (totalPages cnt pageSize) current = [lo .. hi]
                 \<and> 1 \<le> lo \<and> lo \<le> current \<and> current \<le> hi
                 \<and> hi \<le> totalPages cnt pageSize \<and> hi - lo + 1 \<le> 7))"
proof
  show "totalPages cnt pageSize
          = (if cnt = 0 then 1 else \<lceil>real_of_int cnt / real_of_int pageSize\<rceil>)"
    using assms by (simp add: totalPages_def ceil_div_ceiling max_def)
next
  show "1 \<le> current \<and> current \<le> totalPages cnt pageSize \<longrightarrow>
              (\<exists>lo hi. pageNumbers (totalPages cnt pageSize) current = [lo .. hi]
                 \<and> 1 \<le> lo \<and> lo \<le> current \<and> current \<le> hi
                 \<and> hi \<le> totalPages cnt pageSize \<and> hi - lo + 1 \<le> 7)"
    using pageNumbers_window [of current "totalPages cnt pageSize"] by blast
qed

theorem pagination_window_witness:
  "(0::int) \<le> 95 \<and> (1::int) \<le> 10 \<and> totalPages 95 10 = 10
   \<and> (1::int) \<le> 9 \<and> (9::int) \<le> totalPages 95 10
   \<and> pageNumbers (totalPages 95 10) 9 = [4, 5, 6, 7, 8, 9, 10]"
proof -
  have c: "(0::int) \<le> 95" and p: "(1::int) \<le> 10" by simp_all
  have t: "totalPages 95 10 = 10" by (simp add: totalPages_def ceil_div_def)
  have n: "pageNumbers 10 9 = [4, 5, 6, 7, 8, 9, 10]"
    by (simp add: pageNumbers_upto upto.simps)
  from pagination_window [OF c p, of 9]
  have "\<exists>lo hi. pageNumbers (totalPages 95 10) 9 = [lo .. hi]
          \<and> 1 \<le> lo \<and> lo \<le> 9 \<and> 9 \<le> hi \<and> hi \<le> totalPages 95 10 \<and> hi - lo + 1 \<le> 7"
    using t by simp
  then show ?thesis using t n by simp
qed

subsection \<open>Request parameters\<close>

lemma map_of_hp_replace:
  "map_of (map (\<lambda>(k', vs). if k' = k then (k', f vs) else (k', vs)) ps) x
     = (if x = k then map_option f (map_of ps k) else map_of ps x)"
  by (induction ps) auto

lemma map_of_hp_set:
  "map_of (hp_set k v ps) x = (if x = k then Some [v] else map_of ps x)"
proof (cases "hp_has k ps")
  case True
  then obtain vs where "map_of ps k = Some vs" by (auto simp: hp_has_def)
  then show ?thesis
    using True map_of_hp_replace [of k "\<lambda>_. [v]" ps x] by (simp add: hp_set_def)
next
  case False
  then show ?thesis by (auto simp: hp_set_def hp_has_def map_add_def split: option.splits)
qed

lemma map_of_hp_append:
  "map_of (hp_append k v ps) x = (if x = k then Some (hp_getAll k ps @ [v]) else map_of ps x)"
proof (cases "hp_has k ps")
  case True
  then obtain vs where "map_of ps k = Some vs" by (auto simp: hp_has_def)
  then show ?thesis
    using True map_of_hp_replace [of k "\<lambda>vs. vs @ [v]" ps x]
    by (simp add: hp_append_def hp_getAll_def)
next
  case False
  then show ?thesis
    by (auto simp: hp_append_def hp_has_def hp_getAll_def map_add_def split: option.splits)
qed

lemma hp_getAll_set [simp]:
  "hp_getAll x (hp_set k v ps) = (if x = k then [v] else hp_getAll x ps)"
  by (simp add: hp_getAll_def map_of_hp_set)

lemma hp_getAll_append [simp]:
  "hp_getAll x (hp_append k v ps) = (if x = k then hp_getAll k ps @ [v] else hp_getAll x ps)"
  by (simp add: hp_getAll_def map_of_hp_append)

lemma hp_getAll_empty [simp]: "hp_getAll x [] = []"
  by (simp add: hp_getAll_def)

lemma hp_keys_set: "fst ` set (hp_set k v ps) = insert k (fst ` set ps)"
  by (force simp: hp_set_def hp_has_def map_of_eq_None_iff image_iff split: if_splits)

subsection \<open>Harvest-log listing\<close>

lemma harvest_list_url: "req_url (harvest_list baseUrl q) = baseUrl @ ''/harvest-logs/''"
  by (simp add: harvest_list_def Let_def)

lemma harvest_list_is_get:
  "harvest_list baseUrl q = HttpGet (baseUrl @ ''/harvest-logs/'') (req_params (harvest_list baseUrl q))"
  by (simp add: harvest_list_def Let_def)

lemma harvest_list_page:
  "hp_getAll ''page'' (req_params (harvest_list baseUrl q))
     = [int_to_string (max 1 (case q_page q of None \<Rightarrow> 1 | Some p \<Rightarrow> p))]"
  by (simp add: harvest_list_def Let_def split: option.splits)

lemma harvest_list_page_size:
  "hp_getAll ''page_size'' (req_params (harvest_list baseUrl q))
     = (case q_pageSize q of None \<Rightarrow> [] | Some n \<Rightarrow> if n > 0 then [int_to_string n] else [])"
  by (simp add: harvest_list_def Let_def max_def split: option.splits)

lemma harvest_list_journal:
  "hp_getAll ''journal'' (req_params (harvest_list baseUrl q))
     = (if truthy (q_journal q) then [the (q_journal q)] else [])"
  by (simp add: harvest_list_def Let_def split: option.splits)

lemma harvest_list_status:
  "hp_getAll ''status'' (req_params (harvest_list baseUrl q))
     = (if truthy (q_status q) then [the (q_status q)] else [])"
  by (simp add: harvest_list_def Let_def split: option.splits)

lemma harvest_list_keys:
  "fst ` set (req_params (harvest_list baseUrl q))
     \<subseteq> {''page'', ''page_size'', ''journal'', ''journal_id'', ''status''}"
  by (auto simp add: harvest_list_def Let_def hp_keys_set split: option.splits if_splits)

lemma HarvestLog_fields:
  fixes l l' :: HarvestLog
  shows "(l = l') =
     (hl_id l = hl_id l' \<and> hl_journal l = hl_journal l' \<and> hl_started_at l = hl_started_at l'
      \<and> hl_finished_at l = hl_finished_at l' \<and> hl_endpoint l = hl_endpoint l'
      \<and> hl_status l = hl_status l' \<and> hl_record_count l = hl_record_count l'
      \<and> hl_error_message l = hl_error_message l')"
  by (cases l, cases l') auto

text \<open>
  Claim C4. An entry of the harvest-log listing is made of exactly the eight fields
  id, journal, started_at, finished_at, endpoint, status, record_count and error_message
  (two entries are equal as soon as these agree). The listing request is a GET of
  \<open>/harvest-logs/\<close> which always carries \<open>page\<close>, carries \<open>page_size\<close> when a positive page
  size is given, and carries \<open>journal\<close> and \<open>status\<close> exactly when the corresponding
  filter is set (present and non-empty), with the filter's value; it carries no parameter
  other than page, page_size, journal, journal_id and status.
\<close>

theorem harvest_log_listing:
  fixes l l' :: HarvestLog
  shows "((l = l') =
            (hl_id l = hl_id l' \<and> hl_journal l = hl_journal l' \<and> hl_started_at l = hl_started_at l'
             \<and> hl_finished_at l = hl_finished_at l' \<and> hl_endpoint l = hl_endpoint l'
             \<and> hl_status l = hl_status l' \<and> hl_record_count l = hl_record_count l'
             \<and> hl_error_message l = hl_error_message l'))
     \<and> harvest_list baseUrl q
          = HttpGet (baseUrl @ ''/harvest-logs/'') (req_params (harvest_list baseUrl q))
     \<and> hp_getAll ''page'' (req_params (harvest_list baseUrl q))
          = [int_to_string (max 1 (case q_page q of None \<Rightarrow> 1 | Some p \<Rightarrow> p))]
     \<and> hp_getAll ''page_size'' (req_params (harvest_list baseUrl q))
          = (case q_pageSize q of None \<Rightarrow> [] | Some n \<Rightarrow> if n > 0 then [int_to_string n] else [])
     \<and> hp_getAll ''journal'' (req_params (harvest_list baseUrl q))
          = (if truthy (q_journal q) then [the (q_journal q)] else [])
     \<and> hp_getAll ''status'' (req_params (harvest_list baseUrl q))
          = (if truthy (q_status q) then [the (q_status q)] else [])
     \<and> fst ` set (req_params (harvest_list baseUrl q))
          \<subseteq> {''page'', ''page_size'', ''journal'', ''journal_id'', ''status''}"
  using HarvestLog_fields [of l l'] harvest_list_is_get [of baseUrl q]
    harvest_list_page [of baseUrl q] harvest_list_page_size [of baseUrl q]
    harvest_list_journal [of baseUrl q] harvest_list_status [of baseUrl q]
    harvest_list_keys [of baseUrl q]
  by blast

theorem harvest_log_listing_witness:
  "harvest_list ''/api''
      \<lparr>q_page = Some 2, q_pageSize = Some 25, q_journal = Some ''ajfand'',
       q_journalId = None, q_status = None\<rparr>
     = HttpGet ''/api/harvest-logs/''
         [(''page'', [''2'']), (''page_size'', [''25'']), (''journal'', [''ajfand''])]
   \<and> hp_getAll ''status''
        (req_params (harvest_list ''/api''
           \<lparr>q_page = Some 2, q_pageSize = Some 25, q_journal = Some ''ajfand'',
            q_journalId = None, q_status = None\<rparr>)) = []"
proof -
  have e: "harvest_list ''/api''
      \<lparr>q_page = Some 2, q_pageSize = Some 25, q_journal = Some ''ajfand'',
       q_journalId = None, q_status = None\<rparr>
     = HttpGet ''/api/harvest-logs/''
         [(''page'', [''2'']), (''page_size'', [''25'']), (''journal'', [''ajfand''])]"
    by code_simp
  show ?thesis
    using e harvest_log_listing [of undefined undefined "''/api''"
      "\<lparr>q_page = Some 2, q_pageSize = Some 25, q_journal = Some ''ajfand'',
        q_journalId = None, q_status = None\<rparr>"]
    by (simp add: truthy_def)
qed

subsection \<open>Harvest status filter\<close>

lemma normalizeStatus_cases:
  "normalizeStatus p = None \<or> (\<exists>s. normalizeStatus p = Some (status_text s))"
proof (cases "normalizeStatus p")
  case None
  then show ?thesis by simp
next
  case (Some v)
  then have "v = ''running'' \<or> v = ''success'' \<or> v = ''failed''"
    by (auto simp: normalizeStatus_def truthy_def split: if_splits option.splits)
  then have "v = status_text Running \<or> v = status_text Success \<or> v = status_text Failed"
    by (simp add: status_text_def)
  then show ?thesis using Some by blast
qed

lemma normalizeStatus_other:
  "(\<And>s. p \<noteq> Some (status_text s)) \<Longrightarrow> normalizeStatus p = None"
  using normalizeStatus_cases [of p]
  by (auto simp: normalizeStatus_def split: if_splits)

lemma normalizeStatus_valid: "normalizeStatus (Some (status_text s)) = Some (status_text s)"
  by (cases s) (simp_all add: normalizeStatus_def status_text_def truthy_def)

lemma harvest_onQueryParams_status:
  "hs_statusFilter (harvest_onQueryParams toNumber params st) = normalizeStatus (params ''status'')"
  by (simp add: harvest_onQueryParams_def Let_def)

lemma fetchLogs_status:
  "hp_getAll ''status'' (req_params (fetchLogs_request baseUrl st))
     = (if truthy (hs_statusFilter st) then [the (hs_statusFilter st)] else [])"
  by (simp add: fetchLogs_request_def Let_def harvest_list_status truthy_def)

lemma status_text_truthy: "truthy (Some (status_text s))"
  by (cases s) (simp_all add: status_text_def truthy_def)

lemma onStatusChange_status:
  "hs_statusFilter (fst (onStatusChange v st)) = hs_statusFilter st
   \<or> hs_statusFilter (fst (onStatusChange v st)) = None
   \<or> (\<exists>s. hs_statusFilter (fst (onStatusChange v st)) = Some (status_text s))"
proof -
  have "status_text Success = ''success''" "status_text Failed = ''failed''"
    "status_text Running = ''running''"
    by (simp_all add: status_text_def)
  then show ?thesis
    by (auto simp: onStatusChange_def applyStatusFilter_def) metis+
qed

text \<open>
  Claim C5. A harvest status is one of running, success and failed, and nothing else.
  Whatever the \<open>status\<close> route parameter of the harvest-log page holds, the status filter
  applied from it is either absent or one of these three values: one of the three is kept
  as it is, and any other value becomes no filter. The listing request then carries a
  \<open>status\<close> parameter only for one of the three values, and none when there is no
  filter. The status selector likewise leaves the filter as it was, clears it, or sets
  one of the three values.
\<close>

theorem harvest_status_filter:
  "(\<forall>s :: HarvestStatus. s = Running \<or> s = Success \<or> s = Failed)
   \<and> (hs_statusFilter (harvest_onQueryParams toNumber params st) = None
        \<or> (\<exists>s. hs_statusFilter (harvest_onQueryParams toNumber params st) = Some (status_text s)))
   \<and> hs_statusFilter (harvest_onQueryParams toNumber params (st :: HarvestLogListState))
        = (if \<exists>s. params ''status'' = Some (status_text s) then params ''status'' else None)
   \<and> hp_getAll ''status''
        (req_params (fetchLogs_request baseUrl (harvest_onQueryParams toNumber params st)))
        = (if \<exists>s. params ''status'' = Some (status_text s) then [the (params ''status'')] else [])
   \<and> (hs_statusFilter (fst (onStatusChange v st)) = hs_statusFilter st
        \<or> hs_statusFilter (fst (onStatusChange v st)) = None
        \<or> (\<exists>s. hs_statusFilter (fst (onStatusChange v st)) = Some (status_text s)))"
proof -
  let ?st = "harvest_onQueryParams toNumber params st"
  have a: "\<forall>s :: HarvestStatus. s = Running \<or> s = Success \<or> s = Failed"
    using HarvestStatus.exhaust by blast
  have f: "hs_statusFilter ?st = normalizeStatus (params ''status'')"
    by (rule harvest_onQueryParams_status)
  have b: "hs_statusFilter ?st = None \<or> (\<exists>s. hs_statusFilter ?st = Some (status_text s))"
    using normalizeStatus_cases [of "params ''status''"] f by simp
  have c: "hs_statusFilter ?st
        = (if \<exists>s. params ''status'' = Some (status_text s) then params ''status'' else None)"
  proof (cases "\<exists>s. params ''status'' = Some (status_text s)")
    case True
    then show ?thesis using f normalizeStatus_valid by auto
  next
    case False
    then have "normalizeStatus (params ''status'') = None"
      by (intro normalizeStatus_other) blast
    then show ?thesis using f False by simp
  qed
  have d: "hp_getAll ''status'' (req_params (fetchLogs_request baseUrl ?st))
        = (if \<exists>s. params ''status'' = Some (status_text s) then [the (params ''status'')] else [])"
  proof (cases "\<exists>s. params ''status'' = Some (status_text s)")
    case True
    then obtain s where s: "params ''status'' = Some (status_text s)" by blast
    then have "hs_statusFilter ?st = Some (status_text s)" using c by auto
    then show ?thesis using s True status_text_truthy [of s] by (simp add: fetchLogs_status)
  next
    case False
    then have "hs_statusFilter ?st = None" using c by simp
    then show ?thesis using False by (simp add: fetchLogs_status truthy_def)
  qed
  show ?thesis using a b c d onStatusChange_status [of v st] by blast
qed

theorem harvest_status_filter_witness:
  "hs_statusFilter
     (harvest_onQueryParams (\<lambda>_. None) (\<lambda>k. if k = ''status'' then Some ''bogus'' else None)
        \<lparr>hs_loading = False, hs_error = None, hs_logs = [], hs_count = 0, hs_page = 1,
         hs_pageSize = 25, hs_journalSlug = None, hs_journalName = None,
         hs_statusFilter = Some ''failed'', hs_pageSizeOptions = [10, 25, 50, 100]\<rparr>) = None
   \<and> hp_getAll ''status''
        (req_params (fetchLogs_request ''/api''
           (harvest_onQueryParams (\<lambda>_. None) (\<lambda>k. if k = ''status'' then Some ''bogus'' else None)
              \<lparr>hs_loading = False, hs_error = None, hs_logs = [], hs_count = 0, hs_page = 1,
               hs_pageSize = 25, hs_journalSlug = None, hs_journalName = None,
               hs_statusFilter = Some ''failed'', hs_pageSizeOptions = [10, 25, 50, 100]\<rparr>))) = []"
proof -
  have n: "\<not> (\<exists>s. Some ''bogus'' = Some (status_text s))"
  proof
    assume "\<exists>s. Some ''bogus'' = Some (status_text s)"
    then obtain s where "''bogus'' = status_text s" by auto
    then show False by (cases s) (simp_all add: status_text_def)
  qed
  show ?thesis
    using n harvest_status_filter [of "\<lambda>_. None"
      "\<lambda>k. if k = ''status'' then Some ''bogus'' else None"
      "\<lparr>hs_loading = False, hs_error = None, hs_logs = [], hs_count = 0, hs_page = 1,
        hs_pageSize = 25, hs_journalSlug = None, hs_journalName = None,
        hs_statusFilter = Some ''failed'', hs_pageSizeOptions = [10, 25, 50, 100]\<rparr>"
      "''/api''" "''all''"]
    by simp
qed

subsection \<open>Publication requests\<close>

lemma hp_getAll_foldl_append:
  "hp_getAll k (foldl (\<lambda>ps x. hp_append n (f x) ps) ps xs)
     = (if k = n then hp_getAll n ps @ map f xs else hp_getAll k ps)"
  by (induction xs arbitrary: ps) auto

lemma hp_getAll_set_if_truthy [simp]:
  "hp_getAll k (set_if_truthy n v ps) = (if k = n \<and> truthy v then [the v] else hp_getAll k ps)"
  by (simp add: set_if_truthy_def)

lemma hp_getAll_set_page_size [simp]:
  "hp_getAll k (set_page_size p ps)
     = (if k = ''page_size'' \<and> (\<exists>n. p = Some n \<and> n > 0) then [int_to_string (the p)]
        else hp_getAll k ps)"
  by (auto simp: set_page_size_def split: option.splits)

lemma hp_getAll_append_authors [simp]:
  "hp_getAll k (append_authors a ps)
     = (if k = ''author''
        then hp_getAll ''author'' ps
               @ (case a of None \<Rightarrow> [] | Some as \<Rightarrow> filter (\<lambda>author. author \<noteq> []) (map trim as))
        else hp_getAll k ps)"
  by (simp add: append_authors_def hp_getAll_foldl_append split: option.splits)

lemma hp_getAll_append_issued_years [simp]:
  "hp_getAll k (append_issued_years ys ps)
     = (if k = ''issued_year''
        then hp_getAll ''issued_year'' ps
               @ (case ys of None \<Rightarrow> []
                  | Some l \<Rightarrow> map int_to_string (List.map_filter year_number l))
        else hp_getAll k ps)"
  by (simp add: append_issued_years_def hp_getAll_foldl_append split: option.splits)

lemma publication_list_is_get:
  "publication_list baseUrl options
     = HttpGet (baseUrl @ ''/publications/'') (req_params (publication_list baseUrl options))"
  by (simp add: publication_list_def Let_def)

lemma publication_search_is_get:
  "publication_search baseUrl query options
     = HttpGet (baseUrl @ ''/publications/search/'')
         (req_params (publication_search baseUrl query options))"
  by (simp add: publication_search_def Let_def)

lemma publication_list_search_param:
  "hp_getAll ''search'' (req_params (publication_list baseUrl options))
     = (if truthy (opt_search options) then [the (opt_search options)] else [])"
  by (simp add: publication_list_def Let_def split: option.splits)

lemma publication_list_q_param:
  "hp_getAll ''q'' (req_params (publication_list baseUrl options)) = []"
  by (simp add: publication_list_def Let_def split: option.splits)

lemma publication_search_q_param:
  "hp_getAll ''q'' (req_params (publication_search baseUrl query options)) = [query]"
  by (simp add: publication_search_def Let_def)

lemma publication_search_search_param:
  "hp_getAll ''search'' (req_params (publication_search baseUrl query options)) = []"
  by (simp add: publication_search_def Let_def)

subsection \<open>Choice of the endpoint\<close>

lemma usingSearchEndpoint_iff:
  "usingSearchEndpoint st =
     (trim (pl_searchQuery st) \<noteq> []
      \<and> \<not> truthy (pl_journalSlug st) \<and> \<not> truthy (pl_issuedFrom st) \<and> \<not> truthy (pl_issuedTo st)
      \<and> \<not> truthy (pl_ordering st) \<and> pl_subjectFilters st = [] \<and> pl_authorFilters st = []
      \<and> pl_issuedYearFilters st = [])"
  by (auto simp: usingSearchEndpoint_def isSearch_def hasAdditionalFilters_def Let_def)

lemma search_url_differs: "baseUrl @ ''/publications/search/'' \<noteq> baseUrl @ ''/publications/''"
  by simp

lemma fetch_request_search:
  assumes "usingSearchEndpoint st"
  shows "fetchPublications_request baseUrl st
           = HttpGet (baseUrl @ ''/publications/search/'')
               (req_params (fetchPublications_request baseUrl st))"
    and "hp_getAll ''q'' (req_params (fetchPublications_request baseUrl st))
           = [trim (pl_searchQuery st)]"
    and "hp_getAll ''search'' (req_params (fetchPublications_request baseUrl st)) = []"
  using assms publication_search_is_get [of baseUrl "trim (pl_searchQuery st)" "filterOptions st"]
  by (simp_all add: fetchPublications_request_def Let_def publication_search_q_param
      publication_search_search_param)

lemma fetch_request_list:
  assumes "\<not> usingSearchEndpoint st"
  shows "fetchPublications_request baseUrl st
           = HttpGet (baseUrl @ ''/publications/'')
               (req_params (fetchPublications_request baseUrl st))"
    and "hp_getAll ''search'' (req_params (fetchPublications_request baseUrl st))
           = (if trim (pl_searchQuery st) \<noteq> [] then [trim (pl_searchQuery st)] else [])"
    and "hp_getAll ''q'' (req_params (fetchPublications_request baseUrl st)) = []"
proof -
  let ?o = "(filterOptions st)\<lparr>opt_search :=
              (if isSearch st then Some (trim (pl_searchQuery st)) else None)\<rparr>"
  have r: "fetchPublications_request baseUrl st = publication_list baseUrl ?o"
    using assms by (simp add: fetchPublications_request_def Let_def)
  show "fetchPublications_request baseUrl st
           = HttpGet (baseUrl @ ''/publications/'')
               (req_params (fetchPublications_request baseUrl st))"
    using publication_list_is_get [of baseUrl ?o] r by simp
  show "hp_getAll ''search'' (req_params (fetchPublications_request baseUrl st))
           = (if trim (pl_searchQuery st) \<noteq> [] then [trim (pl_searchQuery st)] else [])"
    using r by (simp add: publication_list_search_param isSearch_def truthy_def)
  show "hp_getAll ''q'' (req_params (fetchPublications_request baseUrl st)) = []"
    using r by (simp add: publication_list_q_param)
qed

text \<open>
  Claim C1. A request of the publication list goes to the search endpoint
  \<open>/publications/search/\<close> if and only if the (trimmed) free-text query is not empty and
  none of the structured filters journal, issued_from, issued_to, ordering, subject,
  author, issued_year is set. In that case the query is sent as \<open>q\<close>. In every other case,
  also when a query comes with a structured filter, the request goes to the list endpoint
  \<open>/publications/\<close>, which is not the search endpoint, and a query that is not empty is
  sent along as the plain parameter \<open>search\<close>.
\<close>

theorem query_planner_dispatch:
  "(req_url (fetchPublications_request baseUrl st) = baseUrl @ ''/publications/search/'')
     = (trim (pl_searchQuery st) \<noteq> []
        \<and> \<not> truthy (pl_journalSlug st) \<and> \<not> truthy (pl_issuedFrom st)
        \<and> \<not> truthy (pl_issuedTo st) \<and> \<not> truthy (pl_ordering st)
        \<and> pl_subjectFilters st = [] \<and> pl_authorFilters st = []
        \<and> pl_issuedYearFilters st = [])
   \<and> (if req_url (fetchPublications_request baseUrl st) = baseUrl @ ''/publications/search/''
      then fetchPublications_request baseUrl st
             = HttpGet (baseUrl @ ''/publications/search/'')
                 (req_params (fetchPublications_request baseUrl st))
           \<and> hp_getAll ''q'' (req_params (fetchPublications_request baseUrl st))
               = [trim (pl_searchQuery st)]
      else fetchPublications_request baseUrl st
             = HttpGet (baseUrl @ ''/publications/'')
                 (req_params (fetchPublications_request baseUrl st))
           \<and> hp_getAll ''search'' (req_params (fetchPublications_request baseUrl st))
               = (if trim (pl_searchQuery st) \<noteq> [] then [trim (pl_searchQuery st)] else [])
           \<and> hp_getAll ''q'' (req_params (fetchPublications_request baseUrl st)) = [])"
proof (cases "usingSearchEndpoint st")
  case True
  have u: "req_url (fetchPublications_request baseUrl st) = baseUrl @ ''/publications/search/''"
    using fetch_request_search(1) [OF True, of baseUrl]
    by (metis http_request.sel(1))
  show ?thesis
    using True u fetch_request_search [OF True, of baseUrl] usingSearchEndpoint_iff [of st]
    by simp
next
  case False
  have "req_url (fetchPublications_request baseUrl st) = baseUrl @ ''/publications/''"
    using fetch_request_list(1) [OF False, of baseUrl]
    by (metis http_request.sel(1))
  then have u: "req_url (fetchPublications_request baseUrl st) \<noteq> baseUrl @ ''/publications/search/''"
    by simp
  show ?thesis
    using False u fetch_request_list [OF False, of baseUrl] usingSearchEndpoint_iff [of st]
    by simp
qed

theorem query_planner_dispatch_witness:
  "fetchPublications_request ''/api''
     \<lparr>pl_loading = False, pl_error = None, pl_publications = [], pl_facets = None,
      pl_count = 0, pl_page = 1, pl_pageSize = 10, pl_searchQuery = ''maize'',
      pl_journalSlug = None, pl_journalName = None,
      pl_ordering = None, pl_issuedFrom = None, pl_issuedTo = None,
      pl_subjectFilters = [], pl_authorFilters = [], pl_issuedYearFilters = [''2020''],
      pl_hasLoadedInitial = False\<rparr>
   = HttpGet ''/api/publications/''
       [(''page'', [''1'']), (''search'', [''maize'']), (''page_size'', [''10'']),
        (''issued_year'', [''2020''])]
   \<and> req_url (fetchPublications_request ''/api''
     \<lparr>pl_loading = False, pl_error = None, pl_publications = [], pl_facets = None,
      pl_count = 0, pl_page = 1, pl_pageSize = 10, pl_searchQuery = ''maize'',
      pl_journalSlug = None, pl_journalName = None,
      pl_ordering = None, pl_issuedFrom = None, pl_issuedTo = None,
      pl_subjectFilters = [], pl_authorFilters = [], pl_issuedYearFilters = [''2020''],
      pl_hasLoadedInitial = False\<rparr>) \<noteq> ''/api/publications/search/''"
proof -
  let ?st = "\<lparr>pl_loading = False, pl_error = None, pl_publications = [], pl_facets = None,
      pl_count = 0, pl_page = 1, pl_pageSize = 10, pl_searchQuery = ''maize'',
      pl_journalSlug = None, pl_journalName = None,
      pl_ordering = None, pl_issuedFrom = None, pl_issuedTo = None,
      pl_subjectFilters = [], pl_authorFilters = [], pl_issuedYearFilters = [''2020''],
      pl_hasLoadedInitial = False\<rparr>"
  have e: "fetchPublications_request ''/api'' ?st
   = HttpGet ''/api/publications/''
       [(''page'', [''1'']), (''search'', [''maize'']), (''page_size'', [''10'']),
        (''issued_year'', [''2020''])]"
    by code_simp
  have "req_url (fetchPublications_request ''/api'' ?st) \<noteq> ''/api/publications/search/''"
    using query_planner_dispatch [of "''/api''" ?st] by auto
  then show ?thesis using e by simp
qed

subsection \<open>Failure of a request\<close>

lemma fetchPublications_on_failure:
  assumes "backend (fetchPublications_request baseUrl st) = Inl err"
  shows "fetchPublications backend baseUrl st
           = (Inl (fetchPublications_error (usingSearchEndpoint st) (isSearch st) err
                     (st\<lparr>pl_loading := True, pl_error := None\<rparr>)),
              [fetchPublications_request baseUrl st])"
  using assms
  by (simp add: fetchPublications_def Let_def usingSearchEndpoint_def isSearch_def
      hasAdditionalFilters_def)

text \<open>
  Claim C3, as stated, fails: with the query \<open>maize\<close> and no filter the page asks the
  search endpoint; when that endpoint answers 503 while the list endpoint would answer
  from the relational store, the page sends no second request, shows no results and
  displays an error.
\<close>

theorem search_unavailable_counterexample:
  "index_down_backend (publication_list ''/api'' (filterOptions maize_search_state))
     = Inr relational_response
   \<and> snd (fetchPublications index_down_backend ''/api'' maize_search_state)
     = [HttpGet ''/api/publications/search/''
          [(''page'', [''1'']), (''q'', [''maize'']), (''page_size'', [''10''])]]
   \<and> fst (fetchPublications index_down_backend ''/api'' maize_search_state)
     = Inl (maize_search_state
             \<lparr>pl_publications := [],
              pl_error := Some ''Search is temporarily unavailable. Please try again later.'',
              pl_hasLoadedInitial := True\<rparr>)"
  by code_simp

text \<open>
  Claim C3, amended. When the request of the list page fails, whichever endpoint it went
  to, the page does not fall back to another endpoint: that one request is the only one
  sent, the results and the facets are cleared, the count is 0 and an error message is
  displayed. The message is \<open>Search is temporarily unavailable. Please try again later.\<close>
  when the search endpoint answered 503, \<open>Unable to apply the selected filters with
  search.\<close> when a query was sent to the list endpoint, and otherwise the detail of the
  error or \<open>Unable to load publications.\<close>
\<close>

theorem fetch_failure_shows_error:
  assumes "backend (fetchPublications_request baseUrl st) = Inl err"
  shows "\<exists>st'. fetchPublications backend baseUrl st
                 = (Inl st', [fetchPublications_request baseUrl st])
           \<and> pl_publications st' = [] \<and> pl_count st' = 0 \<and> pl_facets st' = None
           \<and> \<not> pl_loading st'
           \<and> pl_error st'
               = Some (if usingSearchEndpoint st \<and> err_status err = Some 503
                       then ''Search is temporarily unavailable. Please try again later.''
                       else if isSearch st \<and> \<not> usingSearchEndpoint st
                       then ''Unable to apply the selected filters with search.''
                       else (case err_detail err of
                               None \<Rightarrow> ''Unable to load publications.''
                             | Some d \<Rightarrow> d))"
  using assms fetchPublications_on_failure [of backend baseUrl st err]
  by (simp add: fetchPublications_error_def Let_def)

theorem fetch_failure_shows_error_witness:
  "index_down_backend (fetchPublications_request ''/api'' maize_search_state)
     = Inl \<lparr>err_status = Some 503, err_detail = Some ''Search backend unavailable.''\<rparr>
   \<and> (\<exists>st'. fetchPublications index_down_backend ''/api'' maize_search_state
               = (Inl st', [fetchPublications_request ''/api'' maize_search_state])
         \<and> pl_publications st' = [] \<and> pl_count st' = 0 \<and> pl_facets st' = None
         \<and> pl_error st' = Some ''Search is temporarily unavailable. Please try again later.'')"
proof -
  have h: "index_down_backend (fetchPublications_request ''/api'' maize_search_state)
     = Inl \<lparr>err_status = Some 503, err_detail = Some ''Search backend unavailable.''\<rparr>"
    by code_simp
  have u: "usingSearchEndpoint maize_search_state" by code_simp
  show ?thesis
    using h u fetch_failure_shows_error [of index_down_backend "''/api''" maize_search_state
        "\<lparr>err_status = Some 503, err_detail = Some ''Search backend unavailable.''\<rparr>"]
    by auto
qed

subsection \<open>Facet requests\<close>

lemma facet_filters_list:
  "key \<in> set [''journal'', ''ordering'', ''issued_from'', ''issued_to'', ''subject'',
                ''author'', ''issued_year'']
   \<Longrightarrow> hp_getAll key (buildFacetParams options)
       = hp_getAll key (req_params (publication_list baseUrl options))"
  by (auto simp: buildFacetParams_def publication_list_def Let_def split: option.splits)

lemma facet_filters_search:
  "key \<in> set [''journal'', ''ordering'', ''issued_from'', ''issued_to'', ''subject'',
                ''author'', ''issued_year'']
   \<Longrightarrow> hp_getAll key (buildFacetParams options)
       = hp_getAll key (req_params (publication_search baseUrl query options))"
  by (auto simp: buildFacetParams_def publication_search_def Let_def split: option.splits)

lemma buildFacetParams_ignores_search:
  "buildFacetParams (options\<lparr>opt_search := v\<rparr>) = buildFacetParams options"
  by (simp add: buildFacetParams_def Let_def cong: if_cong option.case_cong)

lemma facet_request_filters:
  assumes "key \<in> set [''journal'', ''ordering'', ''issued_from'', ''issued_to'', ''subject'',
                ''author'', ''issued_year'']"
  shows "hp_getAll key (req_params (fetchFacet_request baseUrl st options))
           = hp_getAll key (buildFacetParams options)"
proof -
  have q: "key \<noteq> ''q''" using assms by auto
  show ?thesis
    using q
    by (simp add: fetchFacet_request_def Let_def listFacet_def searchFacet_def
        buildFacetParams_ignores_search)
qed

lemma encode_facet_names:
  "encodeURIComponent ''authors'' = ''authors''"
  "encodeURIComponent ''subjects'' = ''subjects''"
  "encodeURIComponent ''journals'' = ''journals''"
  "encodeURIComponent ''issued_years'' = ''issued_years''"
  by code_simp+

lemma encode_facet_key: "encodeURIComponent (facet_key_text k) = facet_key_text k"
  by (cases k) (simp_all add: facet_key_text_def encode_facet_names)

lemma facet_key_text_cases:
  "facet_key_text k \<in> set [''authors'', ''subjects'', ''journals'', ''issued_years'']"
  by (cases k) (simp_all add: facet_key_text_def)

lemma fetchFacet_request_url:
  "req_url (fetchFacet_request baseUrl st options)
     = (if fl_searchMode st = ModeElastic \<and> fl_searchTerm st \<noteq> []
        then baseUrl @ ''/publications/search/facets/'' @ facet_key_text (fl_facetKey st) @ ''/''
        else baseUrl @ ''/publications/facets/'' @ facet_key_text (fl_facetKey st) @ ''/'')"
  by (simp add: fetchFacet_request_def Let_def listFacet_def searchFacet_def encode_facet_key)

lemma readFacetRouteKey_text: "readFacetRouteKey v = Some k \<Longrightarrow> v = Some (facet_key_text k)"
  by (auto simp: readFacetRouteKey_def facet_key_text_def split: if_splits)

lemma facet_onRoute_request:
  assumes "readFacetRouteKey facetParam = Some k"
  shows "\<exists>st'. facet_onRoute baseUrl facetParam getAll getSingle st
           = (st', SendRequest (fetchFacet_request baseUrl st'
                                  (ctx_options (parseQueryParams getAll getSingle))))
         \<and> fl_facetKey st' = k
         \<and> fl_searchMode st' = ctx_searchMode (parseQueryParams getAll getSingle)
         \<and> fl_searchTerm st' = ctx_searchTerm (parseQueryParams getAll getSingle)"
  using assms by (simp add: facet_onRoute_def Let_def)

lemma facet_onRoute_other:
  assumes "readFacetRouteKey facetParam = None"
  shows "facet_onRoute baseUrl facetParam getAll getSingle st = (st, NavigateToPublications)"
  using assms by (simp add: facet_onRoute_def)

lemma FacetListResponse_fields:
  fixes r r' :: FacetListResponse
  shows "(r = r') =
     (fr_count r = fr_count r' \<and> fr_page r = fr_page r' \<and> fr_page_size r = fr_page_size r'
      \<and> fr_total_pages r = fr_total_pages r' \<and> fr_next r = fr_next r'
      \<and> fr_previous r = fr_previous r' \<and> fr_param r = fr_param r'
      \<and> fr_results r = fr_results r')"
  by (cases r, cases r') auto

lemma FacetItem_fields:
  fixes i i' :: FacetItem
  shows "(i = i') =
     (fi_value i = fi_value i' \<and> fi_label i = fi_label i' \<and> fi_count i = fi_count i'
      \<and> fi_active i = fi_active i')"
  by (cases i, cases i') auto

lemma fetchFacet_next_fields:
  "fl_total (fetchFacet_next r st) = fr_count r
   \<and> fl_page (fetchFacet_next r st) = fr_page r
   \<and> fl_pageSize (fetchFacet_next r st) = fr_page_size r
   \<and> fl_totalPages (fetchFacet_next r st) = fr_total_pages r
   \<and> fl_facetParam (fetchFacet_next r st) = fr_param r
   \<and> mset (fl_items (fetchFacet_next r st)) = mset (fr_results r)"
  by (simp add: fetchFacet_next_def Let_def)

lemma parseQueryParams_paging:
  "opt_page (ctx_options (parseQueryParams getAll getSingle))
     = Some (ctx_page (parseQueryParams getAll getSingle))
   \<and> opt_pageSize (ctx_options (parseQueryParams getAll getSingle))
     = Some (ctx_pageSize (parseQueryParams getAll getSingle))
   \<and> 0 < ctx_pageSize (parseQueryParams getAll getSingle)"
  by (simp add: parseQueryParams_def Let_def FACET_DEFAULT_PAGE_SIZE_def split: option.splits)

lemma buildFacetParams_paging:
  assumes "opt_page options = Some p" and "opt_pageSize options = Some n" and "0 < n"
  shows "hp_getAll ''page'' (buildFacetParams options) = [int_to_string p]"
    and "hp_getAll ''page_size'' (buildFacetParams options) = [int_to_string n]"
  using assms by (simp_all add: buildFacetParams_def Let_def split: option.splits)

lemma facet_request_paging:
  assumes "opt_page options = Some p" and "opt_pageSize options = Some n" and "0 < n"
  shows "hp_getAll ''page'' (req_params (fetchFacet_request baseUrl st options)) = [int_to_string p]"
    and "hp_getAll ''page_size'' (req_params (fetchFacet_request baseUrl st options))
           = [int_to_string n]"
  using buildFacetParams_paging [OF assms]
  by (simp_all add: fetchFacet_request_def Let_def listFacet_def searchFacet_def
      buildFacetParams_ignores_search)

lemma buildFacetViewLink_keys:
  "fst ` set (snd (buildFacetViewLink st facet))
     \<subseteq> {''search'', ''journal'', ''journal_name'', ''ordering'', ''issued_from'', ''issued_to'',
         ''subject'', ''author'', ''issued_year'', ''search_mode''}"
  by (auto simp: buildFacetViewLink_def Let_def split: if_splits)

lemma buildFacetViewLink_no_pagination:
  "map_of (snd (buildFacetViewLink st facet)) ''page'' = None
   \<and> map_of (snd (buildFacetViewLink st facet)) ''page_size'' = None"
proof -
  have "''page'' \<notin> fst ` set (snd (buildFacetViewLink st facet))"
    and "''page_size'' \<notin> fst ` set (snd (buildFacetViewLink st facet))"
    using buildFacetViewLink_keys [of st facet] by auto
  then show ?thesis by (simp add: map_of_eq_None_iff)
qed

text \<open>
  Claim C7, as stated, fails: a facet request is not the list request minus its
  pagination. A visit of the authors facet page with no query parameter at all sends
  \<open>page=1\<close> and \<open>page_size=50\<close>, and these are the very pagination parameters that the
  list request sends for the same options.
\<close>

theorem facet_request_pagination_counterexample:
  "snd (facet_onRoute ''/api'' (Some ''authors'') (\<lambda>name. []) (\<lambda>name. None) facet_initial_state)
     = SendRequest (HttpGet ''/api/publications/facets/authors/''
         [(''page'', [''1'']), (''page_size'', [''50''])])
   \<and> publication_list ''/api'' (ctx_options (parseQueryParams (\<lambda>name. []) (\<lambda>name. None)))
     = HttpGet ''/api/publications/'' [(''page'', [''1'']), (''page_size'', [''50''])]"
  by code_simp

text \<open>
  Claim C7, amended. A facet page is opened for one facet dimension: the route value
  must be one of authors, subjects, journals and issued_years (any other value sends the
  visitor back to the publication list and no request is made), and the request goes to
  \<open>/publications/facets/<dimension>/\<close> or \<open>/publications/search/facets/<dimension>/\<close>. For
  each structured filter (journal, ordering, issued_from, issued_to, subject, author,
  issued_year) the facet request carries the values that the list request and the search
  request carry for the same options. It also carries pagination: it always sends one
  \<open>page\<close> and one \<open>page_size\<close>, the page and the page size of the facet page, which page
  the values of the facet. A facet response is made of \<open>count\<close>, \<open>page\<close>, \<open>page_size\<close>,
  \<open>total_pages\<close>, \<open>param\<close> and \<open>results\<close> (and of the two links \<open>next\<close> and \<open>previous\<close>),
  each result being made of exactly \<open>value\<close>, \<open>label\<close>, \<open>count\<close> and \<open>active\<close>; the page
  stores the count, the page, the page size, the number of pages and the parameter name
  as they come, and the results as a rearrangement of those received.
\<close>

theorem facet_only_request:
  fixes r r' :: FacetListResponse and i i' :: FacetItem
  shows
  "(case readFacetRouteKey facetParam of
      None \<Rightarrow> facet_onRoute baseUrl facetParam getAll getSingle st = (st, NavigateToPublications)
    | Some k \<Rightarrow>
        facetParam = Some (facet_key_text k)
        \<and> facet_key_text k \<in> set [''authors'', ''subjects'', ''journals'', ''issued_years'']
        \<and> (\<exists>st' req.
              facet_onRoute baseUrl facetParam getAll getSingle st = (st', SendRequest req)
              \<and> (req_url req = baseUrl @ ''/publications/facets/'' @ facet_key_text k @ ''/''
                  \<or> req_url req
                      = baseUrl @ ''/publications/search/facets/'' @ facet_key_text k @ ''/'')
              \<and> hp_getAll ''page'' (req_params req)
                  = [int_to_string (ctx_page (parseQueryParams getAll getSingle))]
              \<and> hp_getAll ''page_size'' (req_params req)
                  = [int_to_string (ctx_pageSize (parseQueryParams getAll getSingle))]
              \<and> (\<forall>key \<in> set [''journal'', ''ordering'', ''issued_from'', ''issued_to'',
                                ''subject'', ''author'', ''issued_year''].
                    hp_getAll key (req_params req)
                      = hp_getAll key (req_params (publication_list baseUrl
                                         (ctx_options (parseQueryParams getAll getSingle))))
                    \<and> hp_getAll key (req_params req)
                      = hp_getAll key (req_params (publication_search baseUrl
                                         (ctx_searchTerm (parseQueryParams getAll getSingle))
                                         (ctx_options (parseQueryParams getAll getSingle)))))))
   \<and> ((r = r') =
         (fr_count r = fr_count r' \<and> fr_page r = fr_page r' \<and> fr_page_size r = fr_page_size r'
          \<and> fr_total_pages r = fr_total_pages r' \<and> fr_next r = fr_next r'
          \<and> fr_previous r = fr_previous r' \<and> fr_param r = fr_param r'
          \<and> fr_results r = fr_results r'))
   \<and> ((i = i') =
         (fi_value i = fi_value i' \<and> fi_label i = fi_label i' \<and> fi_count i = fi_count i'
          \<and> fi_active i = fi_active i'))
   \<and> fl_total (fetchFacet_next r fls) = fr_count r
   \<and> fl_page (fetchFacet_next r fls) = fr_page r
   \<and> fl_pageSize (fetchFacet_next r fls) = fr_page_size r
   \<and> fl_totalPages (fetchFacet_next r fls) = fr_total_pages r
   \<and> fl_facetParam (fetchFacet_next r fls) = fr_param r
   \<and> mset (fl_items (fetchFacet_next r fls)) = mset (fr_results r)"
proof -
  let ?ctx = "parseQueryParams getAll getSingle"
  have route: "case readFacetRouteKey facetParam of
      None \<Rightarrow> facet_onRoute baseUrl facetParam getAll getSingle st = (st, NavigateToPublications)
    | Some k \<Rightarrow>
        facetParam = Some (facet_key_text k)
        \<and> facet_key_text k \<in> set [''authors'', ''subjects'', ''journals'', ''issued_years'']
        \<and> (\<exists>st' req.
              facet_onRoute baseUrl facetParam getAll getSingle st = (st', SendRequest req)
              \<and> (req_url req = baseUrl @ ''/publications/facets/'' @ facet_key_text k @ ''/''
                  \<or> req_url req
                      = baseUrl @ ''/publications/search/facets/'' @ facet_key_text k @ ''/'')
              \<and> hp_getAll ''page'' (req_params req) = [int_to_string (ctx_page ?ctx)]
              \<and> hp_getAll ''page_size'' (req_params req) = [int_to_string (ctx_pageSize ?ctx)]
              \<and> (\<forall>key \<in> set [''journal'', ''ordering'', ''issued_from'', ''issued_to'',
                                ''subject'', ''author'', ''issued_year''].
                    hp_getAll key (req_params req)
                      = hp_getAll key (req_params (publication_list baseUrl (ctx_options ?ctx)))
                    \<and> hp_getAll key (req_params req)
                      = hp_getAll key (req_params (publication_search baseUrl
                                         (ctx_searchTerm ?ctx) (ctx_options ?ctx)))))"
  proof (cases "readFacetRouteKey facetParam")
    case None
    then show ?thesis using facet_onRoute_other [OF None] by simp
  next
    case (Some k)
    from facet_onRoute_request [OF Some, of baseUrl getAll getSingle st]
    obtain st' where st':
      "facet_onRoute baseUrl facetParam getAll getSingle st
         = (st', SendRequest (fetchFacet_request baseUrl st' (ctx_options ?ctx)))"
      "fl_facetKey st' = k"
      by blast
    let ?req = "fetchFacet_request baseUrl st' (ctx_options ?ctx)"
    have url: "req_url ?req = baseUrl @ ''/publications/facets/'' @ facet_key_text k @ ''/''
               \<or> req_url ?req
                   = baseUrl @ ''/publications/search/facets/'' @ facet_key_text k @ ''/''"
      using st'(2) by (simp add: fetchFacet_request_url)
    have filters: "\<forall>key \<in> set [''journal'', ''ordering'', ''issued_from'', ''issued_to'',
                                ''subject'', ''author'', ''issued_year''].
                    hp_getAll key (req_params ?req)
                      = hp_getAll key (req_params (publication_list baseUrl (ctx_options ?ctx)))
                    \<and> hp_getAll key (req_params ?req)
                      = hp_getAll key (req_params (publication_search baseUrl
                                         (ctx_searchTerm ?ctx) (ctx_options ?ctx)))"
    proof
      fix key
      assume k: "key \<in> set [''journal'', ''ordering'', ''issued_from'', ''issued_to'',
                                ''subject'', ''author'', ''issued_year'']"
      show "hp_getAll key (req_params ?req)
              = hp_getAll key (req_params (publication_list baseUrl (ctx_options ?ctx)))
            \<and> hp_getAll key (req_params ?req)
              = hp_getAll key (req_params (publication_search baseUrl
                                 (ctx_searchTerm ?ctx) (ctx_options ?ctx)))"
        using facet_request_filters [OF k, of baseUrl st' "ctx_options ?ctx"]
          facet_filters_list [OF k, of "ctx_options ?ctx" baseUrl]
          facet_filters_search [OF k, of "ctx_options ?ctx" baseUrl "ctx_searchTerm ?ctx"]
        by simp
    qed
    have paging: "hp_getAll ''page'' (req_params ?req) = [int_to_string (ctx_page ?ctx)]"
      "hp_getAll ''page_size'' (req_params ?req) = [int_to_string (ctx_pageSize ?ctx)]"
      using parseQueryParams_paging [of getAll getSingle]
        facet_request_paging [of "ctx_options ?ctx" "ctx_page ?ctx" "ctx_pageSize ?ctx" baseUrl st']
      by simp_all
    show ?thesis
      using Some readFacetRouteKey_text [OF Some] facet_key_text_cases [of k] st'(1) url paging
        filters
      by auto
  qed
  show ?thesis
    using route FacetListResponse_fields [of r r'] FacetItem_fields [of i i']
      fetchFacet_next_fields [of r fls]
    by blast
qed

theorem facet_only_request_witness:
  "readFacetRouteKey (Some ''subjects'') = Some FacetSubjects
   \<and> snd (facet_onRoute ''/api'' (Some ''subjects'') visit_getAll visit_getSingle
            facet_initial_state)
     = SendRequest (HttpGet ''/api/publications/search/facets/subjects/''
         [(''page'', [''1'']), (''page_size'', [''50'']), (''journal'', [''ajfand'']),
          (''author'', [''Otieno'']), (''q'', [''maize''])])
   \<and> req_params (publication_search ''/api'' ''maize''
        (ctx_options (parseQueryParams visit_getAll visit_getSingle)))
     = [(''page'', [''1'']), (''q'', [''maize'']), (''page_size'', [''50'']),
        (''journal'', [''ajfand'']), (''author'', [''Otieno''])]"
proof -
  have a: "readFacetRouteKey (Some ''subjects'') = Some FacetSubjects"
    by code_simp
  have b: "snd (facet_onRoute ''/api'' (Some ''subjects'') visit_getAll visit_getSingle
            facet_initial_state)
     = SendRequest (HttpGet ''/api/publications/search/facets/subjects/''
         [(''page'', [''1'']), (''page_size'', [''50'']), (''journal'', [''ajfand'']),
          (''author'', [''Otieno'']), (''q'', [''maize''])])"
    by code_simp
  have c: "req_params (publication_search ''/api'' ''maize''
        (ctx_options (parseQueryParams visit_getAll visit_getSingle)))
     = [(''page'', [''1'']), (''q'', [''maize'']), (''page_size'', [''50'']),
        (''journal'', [''ajfand'']), (''author'', [''Otieno''])]"
    by code_simp
  show ?thesis
    using a b c
      facet_only_request [where facetParam = "Some ''subjects''" and baseUrl = "''/api''"
        and getAll = visit_getAll and getSingle = visit_getSingle
        and st = facet_initial_state]
    by simp
qed

subsection \<open>OAI endpoint test\<close>








subsection \<open>Metadata positions in the publication form\<close>

lemma combineEntry_position: "mp_position (combineEntry (index, entry)) = Some (int index)"
  by (simp add: combineEntry_def)

lemma combineEntry_value: "mp_value (combineEntry (index, entry)) = mp_value entry"
  by (simp add: combineEntry_def)

lemma combined_positions:
  "map mp_position (map combineEntry (List.enumerate 0 xs))
     = map (\<lambda>i. Some (int i)) [0 ..< length xs]"
  by (rule nth_equalityI) (simp_all add: nth_enumerate_eq combineEntry_position)

lemma combined_values:
  "map mp_value (map combineEntry (List.enumerate 0 xs)) = map mp_value xs"
  by (rule nth_equalityI) (simp_all add: nth_enumerate_eq combineEntry_value)

lemma buildPayload_metadata:
  "pp_metadata (buildPayload form)
     = Some (map combineEntry (List.enumerate 0 (coreEntries form @ metadataEntries form)))"
  by (simp add: buildPayload_def Let_def)

lemma positions_nth:
  assumes "map mp_position es = map (\<lambda>i. Some (int i)) [0 ..< length es]" and "i < length es"
  shows "mp_position (es ! i) = Some (int i)"
proof -
  have "map mp_position es ! i = map (\<lambda>i. Some (int i)) [0 ..< length es] ! i"
    using assms(1) by simp
  then show ?thesis using assms(2) by simp
qed

lemma setMetadataEntries_sorted:
  "pf_metadata (setMetadataEntries entries form)
     = map createMetadataGroup (sort_key me_position entries)"
  by (cases entries) (simp_all add: setMetadataEntries_def Let_def)

lemma findIndex_None: "(findIndex P xs = None) = (\<forall>x\<in>set xs. \<not> P x)"
  by (induction xs) (auto split: option.splits)

lemma findIndex_Some: "findIndex P xs = Some i \<Longrightarrow> i < length xs \<and> P (xs ! i)"
  by (induction xs arbitrary: i) (auto split: option.splits if_splits)

lemma mset_take_nth_drop:
  assumes "i < length xs"
  shows "mset xs = add_mset (xs ! i) (mset (take i xs @ drop (Suc i) xs))"
proof -
  have "mset xs = mset (take i xs @ xs ! i # drop (Suc i) xs)"
    using id_take_nth_drop [OF assms] by simp
  then show ?thesis by simp
qed

lemma split_on_nonempty: "split_on c s \<noteq> []"
  by (induction s) (auto split: list.splits)

lemma split_on_hd: "hd (split_on c s) = takeWhile (\<lambda>x. x \<noteq> c) s"
  using split_on_nonempty by (induction s) (auto split: list.splits)

lemma extractCoreEntry_found:
  assumes "extractCoreEntry entries (coreStoredValue publication field) (getCoreDefaults field)
             = (Some e, rest)"
  shows "mset entries = add_mset e (mset rest) \<and> matchesCoreField publication field e"
proof -
  define target where "target = coreStoredValue publication field"
  define defaults where "defaults = getCoreDefaults field"
  note assms = assms [folded target_def defaults_def]
  let ?byValue = "\<lambda>entry. normalizeValue (Some (me_value entry)) = normalizeValue target"
  let ?byGroup = "\<lambda>entry.
      normalizeValue (Some (me_schema entry)) = normalizeValue (Some (cd_schema defaults))
      \<and> normalizeValue (Some (me_element entry)) = normalizeValue (Some (cd_element defaults))
      \<and> normalizeValue (me_qualifier entry) = normalizeValue (Some (cd_qualifier defaults))"
  let ?first = "if normalizeValue target \<noteq> [] then findIndex ?byValue entries else None"
  let ?index = "case ?first of Some i \<Rightarrow> Some i | None \<Rightarrow> findIndex ?byGroup entries"
  have ex: "extractCoreEntry entries target defaults
              = (case ?index of
                   Some i \<Rightarrow> (Some (entries ! i), take i entries @ drop (Suc i) entries)
                 | None \<Rightarrow> (None, entries))"
    by (simp add: extractCoreEntry_def Let_def)
  from assms ex obtain i where i: "?index = Some i" "e = entries ! i"
    "rest = take i entries @ drop (Suc i) entries"
    by (cases ?index) auto
  have "i < length entries \<and> matchesCoreField publication field (entries ! i)"
  proof (cases ?first)
    case None
    then have "findIndex ?byGroup entries = Some i" using i(1) by simp
    then show ?thesis
      using findIndex_Some [of ?byGroup entries i] by (simp add: matchesCoreField_def target_def defaults_def)
  next
    case (Some k)
    then have k: "k = i" using i(1) by simp
    have "normalizeValue target \<noteq> []" "findIndex ?byValue entries = Some k"
      using Some by (auto split: if_splits)
    then show ?thesis
      using findIndex_Some [of ?byValue entries k] k by (simp add: matchesCoreField_def target_def defaults_def)
  qed
  then show ?thesis using i mset_take_nth_drop [of i entries] by simp
qed

lemma extractCoreEntry_missing:
  assumes "extractCoreEntry entries (coreStoredValue publication field) (getCoreDefaults field)
             = (None, rest)"
  shows "rest = entries \<and> (\<forall>e\<in>set entries. \<not> matchesCoreField publication field e)"
proof -
  define target where "target = coreStoredValue publication field"
  define defaults where "defaults = getCoreDefaults field"
  note assms = assms [folded target_def defaults_def]
  let ?byValue = "\<lambda>entry. normalizeValue (Some (me_value entry)) = normalizeValue target"
  let ?byGroup = "\<lambda>entry.
      normalizeValue (Some (me_schema entry)) = normalizeValue (Some (cd_schema defaults))
      \<and> normalizeValue (Some (me_element entry)) = normalizeValue (Some (cd_element defaults))
      \<and> normalizeValue (me_qualifier entry) = normalizeValue (Some (cd_qualifier defaults))"
  let ?first = "if normalizeValue target \<noteq> [] then findIndex ?byValue entries else None"
  let ?index = "case ?first of Some i \<Rightarrow> Some i | None \<Rightarrow> findIndex ?byGroup entries"
  have ex: "extractCoreEntry entries target defaults
              = (case ?index of
                   Some i \<Rightarrow> (Some (entries ! i), take i entries @ drop (Suc i) entries)
                 | None \<Rightarrow> (None, entries))"
    by (simp add: extractCoreEntry_def Let_def)
  from assms ex have none: "?index = None" and rest: "rest = entries"
    by (cases ?index; auto)+
  then have f: "?first = None" and g: "findIndex ?byGroup entries = None"
    by (auto split: option.splits)
  have v: "normalizeValue target \<noteq> [] \<Longrightarrow> \<forall>e\<in>set entries. \<not> ?byValue e"
    using f by (simp add: findIndex_None)
  have "\<forall>e\<in>set entries. \<not> ?byGroup e"
    using g by (simp only: findIndex_None)
  then show ?thesis using rest v by (auto simp: matchesCoreField_def target_def defaults_def)
qed


lemma value_control_untouched:
  "applyCoreMetadataControls g entry controls (coreValueControl f) = controls (coreValueControl f)"
  by (cases g; cases f)
    (simp_all add: applyCoreMetadataControls_def coreControlMap_def coreValueControl_def Let_def)

lemma coreValueControl_inj: "coreValueControl g = coreValueControl f \<Longrightarrow> g = f"
  by (cases g; cases f) (simp_all add: coreValueControl_def)

lemma patchCoreField_entries:
  "fst (patchCoreField field control stored (entries, controls))
     = snd (extractCoreEntry entries stored (getCoreDefaults field))"
  by (simp add: patchCoreField_def Let_def split_def)

lemma patchCoreField_value:
  "snd (patchCoreField field (coreValueControl field) stored (entries, controls))
     (coreValueControl field)
   = shownCoreValue field
       (case fst (extractCoreEntry entries stored (getCoreDefaults field)) of
          Some e \<Rightarrow> me_value e
        | None \<Rightarrow> (case stored of None \<Rightarrow> [] | Some s \<Rightarrow> s))"
proof -
  obtain r rest where x: "extractCoreEntry entries stored (getCoreDefaults field) = (r, rest)"
    by (cases "extractCoreEntry entries stored (getCoreDefaults field)")
  define v where "v = (case r of Some e \<Rightarrow> me_value e
                         | None \<Rightarrow> (case stored of None \<Rightarrow> [] | Some s \<Rightarrow> s))"
  have "snd (patchCoreField field (coreValueControl field) stored (entries, controls))
          (coreValueControl field)
        = (if field = CoreIssued \<and> CHR ''T'' \<in> set v then hd (split_on CHR ''T'' v) else v)"
    using x by (simp add: patchCoreField_def Let_def value_control_untouched v_def)
  also have "\<dots> = shownCoreValue field v"
    by (simp only: shownCoreValue_def split_on_hd)
  finally show ?thesis using x by (simp add: v_def)
qed

lemma patchCoreField_other:
  assumes "g \<noteq> f"
  shows "snd (patchCoreField g (coreValueControl g) stored p) (coreValueControl f)
           = snd p (coreValueControl f)"
proof -
  have "coreValueControl g \<noteq> coreValueControl f"
    using assms coreValueControl_inj by blast
  then show ?thesis
    by (cases p) (simp add: patchCoreField_def Let_def split_def value_control_untouched)
qed

lemma patch_fold_other:
  assumes "f \<notin> set fs"
  shows "snd (foldl (\<lambda>p g. patchCoreField g (coreValueControl g)
                               (coreStoredValue publication g) p) p fs) (coreValueControl f)
           = snd p (coreValueControl f)"
  using assms
proof (induction fs arbitrary: p)
  case Nil
  then show ?case by simp
next
  case (Cons g fs)
  then have "g \<noteq> f" and "f \<notin> set fs" by auto
  then show ?case
    using Cons.IH [of "patchCoreField g (coreValueControl g) (coreStoredValue publication g) p"]
      patchCoreField_other [of g f "coreStoredValue publication g" p]
    by simp
qed

lemma map_filter_upd:
  assumes "f \<notin> set fs"
  shows "List.map_filter (ex(f := r)) fs = List.map_filter ex fs"
  using assms by (induction fs) (auto simp: List.map_filter_simps split: option.splits)

lemma patch_fold:
  assumes "distinct fs"
  shows "\<exists>ex.
     mset (fst p)
       = mset (fst (foldl (\<lambda>p g. patchCoreField g (coreValueControl g)
                                    (coreStoredValue publication g) p) p fs))
         + mset (List.map_filter ex fs)
     \<and> (\<forall>f\<in>set fs.
          case ex f of
            Some e \<Rightarrow>
              matchesCoreField publication f e
              \<and> snd (foldl (\<lambda>p g. patchCoreField g (coreValueControl g)
                                     (coreStoredValue publication g) p) p fs) (coreValueControl f)
                  = shownCoreValue f (me_value e)
          | None \<Rightarrow>
              (\<forall>e\<in>set (fst (foldl (\<lambda>p g. patchCoreField g (coreValueControl g)
                                            (coreStoredValue publication g) p) p fs)).
                 \<not> matchesCoreField publication f e)
              \<and> snd (foldl (\<lambda>p g. patchCoreField g (coreValueControl g)
                                     (coreStoredValue publication g) p) p fs) (coreValueControl f)
                  = shownCoreValue f (case coreStoredValue publication f of
                                        None \<Rightarrow> [] | Some s \<Rightarrow> s))"
proof -
  define step where
    "step = (\<lambda>p g. patchCoreField g (coreValueControl g) (coreStoredValue publication g) p)"
  define Q where
    "Q = (\<lambda>ex final f.
           case ex f of
             Some e \<Rightarrow>
               matchesCoreField publication f e
               \<and> snd final (coreValueControl f) = shownCoreValue f (me_value e)
           | None \<Rightarrow>
               (\<forall>e\<in>set (fst final). \<not> matchesCoreField publication f e)
               \<and> snd final (coreValueControl f)
                   = shownCoreValue f (case coreStoredValue publication f of
                                         None \<Rightarrow> [] | Some s \<Rightarrow> s))"
  have "\<exists>ex. mset (fst p) = mset (fst (foldl step p fs)) + mset (List.map_filter ex fs)
              \<and> (\<forall>f\<in>set fs. Q ex (foldl step p fs) f)"
    using assms
  proof (induction fs arbitrary: p)
    case Nil
    then show ?case by (simp add: List.map_filter_simps)
  next
    case (Cons f fs)
    obtain entries controls where p: "p = (entries, controls)" by (cases p)
    obtain r rest where x:
      "extractCoreEntry entries (coreStoredValue publication f) (getCoreDefaults f) = (r, rest)"
      by (cases "extractCoreEntry entries (coreStoredValue publication f) (getCoreDefaults f)")
    define p' where "p' = step p f"
    define final where "final = foldl step p' fs"
    have fin: "foldl step p (f # fs) = final" by (simp add: final_def p'_def)
    have notin: "f \<notin> set fs" and dist: "distinct fs" using Cons.prems by auto
    have p'_entries: "fst p' = rest"
      using p x by (simp add: p'_def step_def patchCoreField_entries)
    have p'_value: "snd p' (coreValueControl f)
        = shownCoreValue f (case r of Some e \<Rightarrow> me_value e
                            | None \<Rightarrow> (case coreStoredValue publication f of
                                          None \<Rightarrow> [] | Some s \<Rightarrow> s))"
      using p x patchCoreField_value [of f "coreStoredValue publication f" entries controls]
      by (simp add: p'_def step_def)
    have final_value: "snd final (coreValueControl f) = snd p' (coreValueControl f)"
      using patch_fold_other [OF notin, of publication p'] by (simp add: final_def step_def)
    from Cons.IH [OF dist, of p'] obtain ex' where ih:
      "mset (fst p') = mset (fst final) + mset (List.map_filter ex' fs)"
      "\<forall>g\<in>set fs. Q ex' final g"
      unfolding final_def by blast
    define ex where "ex = ex'(f := r)"
    have ex_f: "ex f = r" and ex_other: "\<And>g. g \<noteq> f \<Longrightarrow> ex g = ex' g"
      by (simp_all add: ex_def)
    have mf: "List.map_filter ex (f # fs)
                = (case r of None \<Rightarrow> [] | Some e \<Rightarrow> [e]) @ List.map_filter ex' fs"
      by (cases r) (simp_all add: ex_def List.map_filter_simps map_filter_upd [OF notin])
    have sub: "set (fst final) \<subseteq> set rest"
    proof -
      have "mset (fst final) \<subseteq># mset rest" using ih(1) p'_entries by simp
      then show ?thesis by (metis set_mset_mono set_mset_mset)
    qed
    have total: "mset (fst p) = mset (fst final) + mset (List.map_filter ex (f # fs))"
    proof (cases r)
      case None
      then have "rest = entries"
        using extractCoreEntry_missing [of entries publication f rest] x by simp
      then show ?thesis using ih(1) p'_entries p mf None by simp
    next
      case (Some e)
      then have "mset entries = add_mset e (mset rest)"
        using extractCoreEntry_found [of entries publication f e rest] x by simp
      then show ?thesis using ih(1) p'_entries p mf Some by simp
    qed
    have head: "Q ex final f"
    proof (cases r)
      case None
      then have "\<forall>e\<in>set entries. \<not> matchesCoreField publication f e" and "rest = entries"
        using extractCoreEntry_missing [of entries publication f rest] x by simp_all
      then show ?thesis using None sub final_value p'_value ex_f by (auto simp: Q_def)
    next
      case (Some e)
      then have "matchesCoreField publication f e"
        using extractCoreEntry_found [of entries publication f e rest] x by simp
      then show ?thesis using Some final_value p'_value ex_f by (simp add: Q_def)
    qed
    have tail: "Q ex final g" if "g \<in> set fs" for g
    proof -
      have "g \<noteq> f" using that notin by auto
      then have "ex g = ex' g" by (rule ex_other)
      then show ?thesis using ih(2) that by (simp add: Q_def)
    qed
    have "\<forall>g\<in>set (f # fs). Q ex final g" using head tail by simp
    then show ?case using total fin by blast
  qed
  then show ?thesis unfolding step_def Q_def .
qed

lemma patchForm_fold:
  "patchForm publication form
     = (let p = foldl (\<lambda>p g. patchCoreField g (coreValueControl g)
                               (coreStoredValue publication g) p)
                  (pub_metadata publication, pf_controls form) coreFields
        in setMetadataEntries (fst p) (form\<lparr>pf_controls := snd p\<rparr>))"
  by (simp add: patchForm_def coreFields_def coreValueControl_def coreStoredValue_def Let_def)

lemma setMetadataEntries_controls:
  "pf_controls (setMetadataEntries entries form) = pf_controls form"
  by (simp add: setMetadataEntries_def Let_def)

lemma coreFields_all: "distinct coreFields \<and> set coreFields = UNIV"
proof -
  have "f \<in> set coreFields" for f by (cases f) (simp_all add: coreFields_def)
  then show ?thesis by (auto simp: coreFields_def)
qed

lemma patchForm_characterised:
  "\<exists>ex shown.
     pf_metadata (patchForm publication form) = map createMetadataGroup shown
     \<and> sorted (map me_position shown)
     \<and> mset (pub_metadata publication) = mset shown + mset (List.map_filter ex coreFields)
     \<and> (\<forall>f. case ex f of
               Some e \<Rightarrow>
                 matchesCoreField publication f e
                 \<and> pf_controls (patchForm publication form) (coreValueControl f)
                     = shownCoreValue f (me_value e)
             | None \<Rightarrow>
                 (\<forall>e\<in>set shown. \<not> matchesCoreField publication f e)
                 \<and> pf_controls (patchForm publication form) (coreValueControl f)
                     = shownCoreValue f (case coreStoredValue publication f of
                                           None \<Rightarrow> [] | Some s \<Rightarrow> s))"
proof -
  define final where
    "final = foldl (\<lambda>p g. patchCoreField g (coreValueControl g)
                            (coreStoredValue publication g) p)
               (pub_metadata publication, pf_controls form) coreFields"
  have d: "distinct coreFields" and u: "set coreFields = UNIV"
    using coreFields_all by simp_all
  from patch_fold [OF d, of "(pub_metadata publication, pf_controls form)" publication]
  obtain ex where ex:
    "mset (pub_metadata publication) = mset (fst final) + mset (List.map_filter ex coreFields)"
    "\<forall>f\<in>set coreFields.
          case ex f of
            Some e \<Rightarrow>
              matchesCoreField publication f e
              \<and> snd final (coreValueControl f) = shownCoreValue f (me_value e)
          | None \<Rightarrow>
              (\<forall>e\<in>set (fst final). \<not> matchesCoreField publication f e)
              \<and> snd final (coreValueControl f)
                  = shownCoreValue f (case coreStoredValue publication f of
                                        None \<Rightarrow> [] | Some s \<Rightarrow> s)"
    unfolding final_def by auto
  define shown where "shown = sort_key me_position (fst final)"
  have form: "patchForm publication form
                = setMetadataEntries (fst final) (form\<lparr>pf_controls := snd final\<rparr>)"
    by (simp add: patchForm_fold final_def Let_def)
  have m: "pf_metadata (patchForm publication form) = map createMetadataGroup shown"
    using form setMetadataEntries_sorted [of "fst final" "form\<lparr>pf_controls := snd final\<rparr>"]
    by (simp add: shown_def)
  have c: "pf_controls (patchForm publication form) = snd final"
    using form by (simp add: setMetadataEntries_controls)
  have s: "sorted (map me_position shown)" by (simp add: shown_def)
  have ms: "mset shown = mset (fst final)" and st: "set shown = set (fst final)"
    by (simp_all add: shown_def)
  have all: "\<forall>f. case ex f of
               Some e \<Rightarrow>
                 matchesCoreField publication f e
                 \<and> pf_controls (patchForm publication form) (coreValueControl f)
                     = shownCoreValue f (me_value e)
             | None \<Rightarrow>
                 (\<forall>e\<in>set shown. \<not> matchesCoreField publication f e)
                 \<and> pf_controls (patchForm publication form) (coreValueControl f)
                     = shownCoreValue f (case coreStoredValue publication f of
                                           None \<Rightarrow> [] | Some s \<Rightarrow> s)"
    unfolding c st using ex(2) u by simp
  have total: "mset (pub_metadata publication)
                 = mset shown + mset (List.map_filter ex coreFields)"
    using ex(1) ms by simp
  show ?thesis using m s total all by blast
qed

text \<open>
  Claim C6. In every payload built by the publication form the metadata list holds the
  entries of the core fields followed by the additional entries, with the positions
  0, 1, 2, ... in that order; so of two entries of the same (schema, element, qualifier)
  group the later one has the greater position. When stored entries are put back into
  the form they are shown in ascending order of position: all of them for
  \<open>setMetadataEntries\<close>. When a stored publication is loaded, every one of its entries
  is displayed: for each core field at most one entry, one that matches the field, is
  taken out and its value is shown in the control of that field; all the other entries
  are shown in the metadata list, in ascending order of position. A core field for which
  no entry is taken out shows the stored attribute of the publication, and then none of
  the entries in the list matches that field.
\<close>

theorem metadata_positions:
  "(\<exists>es. pp_metadata (buildPayload form) = Some es
      \<and> map mp_value es = map mp_value (coreEntries form) @ map mp_value (metadataEntries form)
      \<and> map mp_position es = map (\<lambda>i. Some (int i)) [0 ..< length es]
      \<and> (\<forall>i j. i < j \<longrightarrow> j < length es \<longrightarrow>
             mp_schema (es ! i) = mp_schema (es ! j) \<longrightarrow>
             mp_element (es ! i) = mp_element (es ! j) \<longrightarrow>
             mp_qualifier (es ! i) = mp_qualifier (es ! j) \<longrightarrow>
             (\<exists>pi pj. mp_position (es ! i) = Some pi \<and> mp_position (es ! j) = Some pj
                       \<and> pi < pj)))
   \<and> (\<exists>shown. mset shown = mset entries \<and> sorted (map me_position shown)
         \<and> pf_metadata (setMetadataEntries entries form) = map createMetadataGroup shown)
   \<and> (\<exists>ex shown.
         pf_metadata (patchForm publication form) = map createMetadataGroup shown
         \<and> sorted (map me_position shown)
         \<and> mset (pub_metadata publication) = mset shown + mset (List.map_filter ex coreFields)
         \<and> (\<forall>f. case ex f of
                   Some e \<Rightarrow>
                     matchesCoreField publication f e
                     \<and> pf_controls (patchForm publication form) (coreValueControl f)
                         = shownCoreValue f (me_value e)
                 | None \<Rightarrow>
                     (\<forall>e\<in>set shown. \<not> matchesCoreField publication f e)
                     \<and> pf_controls (patchForm publication form) (coreValueControl f)
                         = shownCoreValue f (case coreStoredValue publication f of
                                               None \<Rightarrow> [] | Some s \<Rightarrow> s)))"
proof -
  let ?xs = "coreEntries form @ metadataEntries form"
  let ?es = "map combineEntry (List.enumerate 0 ?xs)"
  have pos: "map mp_position ?es = map (\<lambda>i. Some (int i)) [0 ..< length ?es]"
    using combined_positions [of ?xs] by simp
  have vals: "map mp_value ?es
                = map mp_value (coreEntries form) @ map mp_value (metadataEntries form)"
    using combined_values [of ?xs] by simp
  have incr: "\<exists>pi pj. mp_position (?es ! i) = Some pi \<and> mp_position (?es ! j) = Some pj
                       \<and> pi < pj"
    if "i < j" and "j < length ?es" for i j
  proof -
    have "mp_position (?es ! i) = Some (int i)"
      using positions_nth [OF pos, of i] that by simp
    moreover have "mp_position (?es ! j) = Some (int j)"
      using positions_nth [OF pos, of j] that by simp
    ultimately show ?thesis using that(1) by simp
  qed
  have first: "\<exists>es. pp_metadata (buildPayload form) = Some es
      \<and> map mp_value es = map mp_value (coreEntries form) @ map mp_value (metadataEntries form)
      \<and> map mp_position es = map (\<lambda>i. Some (int i)) [0 ..< length es]
      \<and> (\<forall>i j. i < j \<longrightarrow> j < length es \<longrightarrow>
             mp_schema (es ! i) = mp_schema (es ! j) \<longrightarrow>
             mp_element (es ! i) = mp_element (es ! j) \<longrightarrow>
             mp_qualifier (es ! i) = mp_qualifier (es ! j) \<longrightarrow>
             (\<exists>pi pj. mp_position (es ! i) = Some pi \<and> mp_position (es ! j) = Some pj
                       \<and> pi < pj))"
    using buildPayload_metadata [of form] pos vals incr by blast
  have second: "\<exists>shown. mset shown = mset entries \<and> sorted (map me_position shown)
         \<and> pf_metadata (setMetadataEntries entries form) = map createMetadataGroup shown"
    using setMetadataEntries_sorted [of entries form]
    by (intro exI [of _ "sort_key me_position entries"]) simp
  show ?thesis
    using first second patchForm_characterised [of publication form] by blast
qed

theorem metadata_positions_witness:
  "map mp_value (coreEntries maize_form) = [''Maize Yields'', ''2020-01-01'']
   \<and> map mp_value (metadataEntries maize_form) = [''Otieno'', ''Wanjiru'']
   \<and> map (\<lambda>e. (mp_element e, mp_qualifier e, mp_value e, mp_position e))
        (the (pp_metadata (buildPayload maize_form)))
     = [(''title'', None, ''Maize Yields'', Some 0),
        (''date'', Some ''issued'', ''2020-01-01'', Some 1),
        (''creator'', None, ''Otieno'', Some 2),
        (''creator'', None, ''Wanjiru'', Some 3)]
   \<and> map mg_value (pf_metadata (setMetadataEntries stored_creators maize_form))
     = [''Otieno'', ''Wanjiru'']
   \<and> map mg_value (pf_metadata (patchForm stored_maize_publication maize_form))
     = [''Otieno'', ''Wanjiru'']
   \<and> map (pf_controls (patchForm stored_maize_publication maize_form)) [''title'', ''issued'']
     = [''Maize yields'', ''2020-01-01'']"
proof -
  have a: "map mp_value (coreEntries maize_form) = [''Maize Yields'', ''2020-01-01'']"
    by code_simp
  have b: "map mp_value (metadataEntries maize_form) = [''Otieno'', ''Wanjiru'']"
    by code_simp
  have c: "map (\<lambda>e. (mp_element e, mp_qualifier e, mp_value e, mp_position e))
        (the (pp_metadata (buildPayload maize_form)))
     = [(''title'', None, ''Maize Yields'', Some 0),
        (''date'', Some ''issued'', ''2020-01-01'', Some 1),
        (''creator'', None, ''Otieno'', Some 2),
        (''creator'', None, ''Wanjiru'', Some 3)]"
    by code_simp
  have d: "map mg_value (pf_metadata (setMetadataEntries stored_creators maize_form))
     = [''Otieno'', ''Wanjiru'']"
    by code_simp
  have e: "map mg_value (pf_metadata (patchForm stored_maize_publication maize_form))
     = [''Otieno'', ''Wanjiru'']"
    by code_simp
  have f: "map (pf_controls (patchForm stored_maize_publication maize_form))
        [''title'', ''issued'']
     = [''Maize yields'', ''2020-01-01'']"
    by code_simp
  show ?thesis
    using a b c d e f
      metadata_positions [where form = maize_form and entries = stored_creators
        and publication = stored_maize_publication]
    by simp
qed

end
